theory Spec2Isabelle
  imports Main
begin

section \<open>Image sources of DataSculptor: a shallow embedding of \<open>datasculptor/image_source.py\<close>\<close>

text \<open>
  The module is thin glue over an image codec (OpenCV), numpy file input and output and
  the operating system's file operations. None of those is code of the repository, so
  each of them enters the model as a primitive whose outcome is given by the environment:
  \<^item> the file system is a map from path strings to file contents, keyed by the strings
    the program passes. Every entry is a regular file, there are no links, and directories
    are not listed: whether a file may be created at a path (its directory exists and can
    be written) is the environment's answer \<open>creatable\<close>. Where a property depends on
    two paths naming two files and not one, it says so with \<open>samefile\<close>, which compares
    the paths after resolving them against the working directory \<open>cwd\<close>;
  \<^item> the codec is a triple of functions of the environment, each of which may raise;
  \<^item> preprocessing functions and cropper functions are values of the program: functions
    on pixel buffers that may raise and that do not touch the file system.
  Every call of a primitive with an effect is appended to a trace, so that "is invoked",
  "is not invoked" and "exactly once" are statements about the trace.
\<close>

subsection \<open>Errors, events, the environment and the world\<close>

datatype error =
    FileNotFoundError
  | OSError
  | TypeError
  | IndexError
  | CvError
  | OtherError string

datatype ('i, 'b) event =
    Ev_fromfile string
  | Ev_cropper 'i
  | Ev_tofile string 'b
  | Ev_imwrite string 'i
  | Ev_makedirs string
  | Ev_rename string string

record ('i, 'b) env =
  imdecode :: "'b \<Rightarrow> error + 'i"
  imencode :: "string \<Rightarrow> 'i \<Rightarrow> error + bool \<times> 'b"
  imwrite_enc :: "string \<Rightarrow> 'i \<Rightarrow> error + 'b option"
  creatable :: "string \<Rightarrow> bool"
  write_fault :: "string \<Rightarrow> 'b \<Rightarrow> 'b option"
  makedirs_err :: "string \<Rightarrow> error option"
  cwd :: string

record ('i, 'b) world =
  files :: "string \<rightharpoonup> 'b"
  trace :: "('i, 'b) event list"

definition emit :: "('i, 'b) event \<Rightarrow> ('i, 'b) world \<Rightarrow> ('i, 'b) world" where
  "emit e w = w\<lparr>trace := trace w @ [e]\<rparr>"

subsection \<open>Strings: the pieces of \<open>str\<close> and \<open>os.path\<close> the module uses\<close>

text \<open>\<open>s.split(c)\<close> for a one-character separator: never an empty list.\<close>

fun split_on :: "char \<Rightarrow> string \<Rightarrow> string list" where
  "split_on c [] = [[]]"
| "split_on c (x # xs) =
     (if x = c then [] # split_on c xs
      else (case split_on c xs of [] \<Rightarrow> [[x]] | s # ss \<Rightarrow> (x # s) # ss))"

text \<open>\<open>sep.join(parts)\<close>.\<close>

fun py_join :: "string \<Rightarrow> string list \<Rightarrow> string" where
  "py_join sep [] = []"
| "py_join sep [s] = s"
| "py_join sep (s # t # ss) = s @ sep @ py_join sep (t # ss)"

text \<open>\<open>str(i)\<close> for the positions \<open>enumerate\<close> yields, which are never negative.\<close>

definition digit_char :: "nat \<Rightarrow> char" where
  "digit_char d = ''0123456789'' ! d"

function str_nat :: "nat \<Rightarrow> string" where
  "str_nat n = (if n < 10 then [digit_char n] else str_nat (n div 10) @ [digit_char (n mod 10)])"
  by pat_completeness auto
termination
  by (relation "measure (\<lambda>n. n)") auto

declare str_nat.simps [simp del]

text \<open>
  \<open>posixpath.join(a, b)\<close>: an absolute \<open>b\<close> replaces \<open>a\<close>; otherwise \<open>b\<close> is appended,
  after a separator unless \<open>a\<close> is empty or already ends with one.
\<close>

definition path_join :: "string \<Rightarrow> string \<Rightarrow> string" where
  "path_join a b =
     (if b \<noteq> [] \<and> hd b = CHR ''/'' then b
      else if a = [] \<or> last a = CHR ''/'' then a @ b
      else a @ ''/'' @ b)"

text \<open>\<open>posixpath.basename(p)\<close>, which is also \<open>posixpath.split(p)[-1]\<close>: what follows the last separator.\<close>

definition basename :: "string \<Rightarrow> string" where
  "basename p = rev (takeWhile (\<lambda>c. c \<noteq> CHR ''/'') (rev p))"

text \<open>
  \<open>posixpath.splitext(p)\<close>: the extension starts at the last dot of the last path
  component, provided some character of that component before the dot is not a dot.
\<close>

definition splitext :: "string \<Rightarrow> string \<times> string" where
  "splitext p =
     (let r = rev p;
          e = takeWhile (\<lambda>c. c \<noteq> CHR ''.'') r;
          rest = dropWhile (\<lambda>c. c \<noteq> CHR ''.'') r
      in if rest = [] \<or> CHR ''/'' \<in> set e then (p, [])
         else if list_ex (\<lambda>c. c \<noteq> CHR ''.'') (takeWhile (\<lambda>c. c \<noteq> CHR ''/'') (tl rest))
              then (rev (tl rest), CHR ''.'' # rev e)
              else (p, []))"

text \<open>\<open>xs[i]\<close> of Python: a negative index counts from the end, out of range raises.\<close>

definition py_index :: "'a list \<Rightarrow> int \<Rightarrow> error + 'a" where
  "py_index xs i =
     (let n = int (length xs); j = (if i < 0 then i + n else i)
      in if j < 0 \<or> n \<le> j then Inl IndexError else Inr (xs ! nat j))"

subsection \<open>Primitives with an effect\<close>

text \<open>\<open>np.fromfile(path, dtype=np.uint8)\<close>: the bytes of the file, or \<open>FileNotFoundError\<close>.\<close>

definition fromfile :: "string \<Rightarrow> ('i, 'b) world \<Rightarrow> (error + 'b) \<times> ('i, 'b) world" where
  "fromfile p w =
     (case files w p of
        None \<Rightarrow> (Inl FileNotFoundError, emit (Ev_fromfile p) w)
      | Some b \<Rightarrow> (Inr b, emit (Ev_fromfile p) w))"

text \<open>
  \<open>buf.tofile(path)\<close> opens the path for writing, which creates the file or empties the
  one that is there, and then writes the buffer. It raises when the file cannot be opened,
  and nothing has changed then; it also raises when the write fails after the open (the
  environment's \<open>write_fault\<close>: a full disk, say), and the file is then left with the part
  that was written.
\<close>

definition tofile :: "('i, 'b) env \<Rightarrow> string \<Rightarrow> 'b \<Rightarrow> ('i, 'b) world \<Rightarrow> (error + unit) \<times> ('i, 'b) world" where
  "tofile E p b w =
     (let w1 = emit (Ev_tofile p b) w
      in if \<not> creatable E p then (Inl OSError, w1)
         else (case write_fault E p b of
                 Some part \<Rightarrow> (Inl OSError, w1\<lparr>files := (files w1)(p \<mapsto> part)\<rparr>)
               | None \<Rightarrow> (Inr (), w1\<lparr>files := (files w1)(p \<mapsto> b)\<rparr>)))"

text \<open>
  \<open>cv2.imwrite(path, img)\<close>: raises when the codec does (no encoder for the extension of
  the path, an empty image); returns \<open>False\<close> and writes nothing when the image cannot be
  encoded or the file cannot be created; otherwise writes the encoded image and returns \<open>True\<close>.
\<close>

definition imwrite :: "('i, 'b) env \<Rightarrow> string \<Rightarrow> 'i \<Rightarrow> ('i, 'b) world \<Rightarrow> (error + bool) \<times> ('i, 'b) world" where
  "imwrite E p img w =
     (let w1 = emit (Ev_imwrite p img) w
      in case imwrite_enc E p img of
           Inl e \<Rightarrow> (Inl e, w1)
         | Inr None \<Rightarrow> (Inr False, w1)
         | Inr (Some b) \<Rightarrow>
             if creatable E p then (Inr True, w1\<lparr>files := (files w1)(p \<mapsto> b)\<rparr>)
             else (Inr False, w1))"

text \<open>\<open>os.makedirs(d, exist_ok=True)\<close>: succeeds or raises, as the environment says; no file changes.\<close>

definition makedirs :: "('i, 'b) env \<Rightarrow> string \<Rightarrow> ('i, 'b) world \<Rightarrow> (error + unit) \<times> ('i, 'b) world" where
  "makedirs E d w =
     (case makedirs_err E d of
        Some e \<Rightarrow> (Inl e, emit (Ev_makedirs d) w)
      | None \<Rightarrow> (Inr (), emit (Ev_makedirs d) w))"

text \<open>\<open>os.path.exists(p)\<close>.\<close>

definition path_exists :: "('i, 'b) world \<Rightarrow> string \<Rightarrow> bool" where
  "path_exists w p = (files w p \<noteq> None)"

text \<open>
  \<open>os.rename(src, dst)\<close>: \<open>FileNotFoundError\<close> when \<open>src\<close> is missing, an \<open>OSError\<close> when
  \<open>dst\<close> cannot be created; otherwise \<open>dst\<close> holds the content and \<open>src\<close> is gone (renaming
  a file to itself changes nothing).
\<close>

definition rename :: "('i, 'b) env \<Rightarrow> string \<Rightarrow> string \<Rightarrow> ('i, 'b) world \<Rightarrow> (error + unit) \<times> ('i, 'b) world" where
  "rename E src dst w =
     (let w1 = emit (Ev_rename src dst) w
      in case files w1 src of
           None \<Rightarrow> (Inl FileNotFoundError, w1)
         | Some b \<Rightarrow>
             if creatable E dst then (Inr (), w1\<lparr>files := ((files w1)(src := None))(dst \<mapsto> b)\<rparr>)
             else (Inl OSError, w1))"

subsection \<open>The sources\<close>

datatype 'i ImageSource =
    PathImageSource (path: string) (preprocessing_fns: "('i \<Rightarrow> error + 'i) list") (name: string)
  | CropImageSource (original_image_source: "'i ImageSource") (idx: int)
      (cropper_fn: "'i \<Rightarrow> error + 'i list") (name: string)

text \<open>\<open>PathImageSource.__init__\<close>: \<open>None\<close> and the empty value both give the default.\<close>

definition PathImageSource_init ::
  "string \<Rightarrow> ('i \<Rightarrow> error + 'i) list option \<Rightarrow> string option \<Rightarrow> 'i ImageSource" where
  "PathImageSource_init p fns nm =
     PathImageSource p
       (case fns of None \<Rightarrow> [] | Some fs \<Rightarrow> fs)
       (case nm of
          None \<Rightarrow> fst (splitext (basename p))
        | Some n \<Rightarrow> if n = [] then fst (splitext (basename p)) else n)"

text \<open>The loop \<open>for fn in self.preprocessing_fns: img = fn(img)\<close>.\<close>

fun apply_fns :: "('i \<Rightarrow> error + 'i) list \<Rightarrow> 'i \<Rightarrow> error + 'i" where
  "apply_fns [] img = Inr img"
| "apply_fns (fn # fns) img =
     (case fn img of Inl e \<Rightarrow> Inl e | Inr img' \<Rightarrow> apply_fns fns img')"

text \<open>\<open>read\<close> of both classes; the one of \<open>CropImageSource\<close> only calls the original's.\<close>

fun read :: "('i, 'b) env \<Rightarrow> 'i ImageSource \<Rightarrow> ('i, 'b) world \<Rightarrow> (error + 'i) \<times> ('i, 'b) world" where
  "read E (PathImageSource p fns nm) w =
     (case fromfile p w of
        (Inl e, w1) \<Rightarrow> (Inl e, w1)
      | (Inr b, w1) \<Rightarrow>
          (case imdecode E b of
             Inl e \<Rightarrow> (Inl e, w1)
           | Inr img \<Rightarrow> (apply_fns fns img, w1)))"
| "read E (CropImageSource orig i cf nm) w = read E orig w"

text \<open>
  \<open>_write\<close>, the same text in both classes (only \<open>PathImageSource.save\<close> calls it); the
  success flag of \<open>imencode\<close> is bound and not read.
\<close>

definition write_img :: "('i, 'b) env \<Rightarrow> string \<Rightarrow> 'i \<Rightarrow> ('i, 'b) world \<Rightarrow> (error + unit) \<times> ('i, 'b) world" where
  "write_img E p img w =
     (let ext = snd (splitext (basename p))
      in case imencode E ext img of
           Inl e \<Rightarrow> (Inl e, w)
         | Inr (is_success, im_buf_arr) \<Rightarrow> tofile E p im_buf_arr w)"

text \<open>The name under which crop \<open>i\<close> is cached: \<open>'_'.join(name.split('_')[:-1]) + '_' + str(i) + image_ext\<close>.\<close>

definition crop_filename :: "string \<Rightarrow> nat \<Rightarrow> string \<Rightarrow> string" where
  "crop_filename nm i image_ext =
     py_join ''_'' (butlast (split_on CHR ''_'' nm)) @ ''_'' @ str_nat i @ image_ext"

text \<open>
  The loop \<open>for i, crop in enumerate(crops): cv2.imwrite(..., crop)\<close>, from position \<open>i\<close>
  on; what \<open>imwrite\<close> returns is dropped, what it raises ends the loop.
\<close>

fun write_crops ::
  "('i, 'b) env \<Rightarrow> string \<Rightarrow> string \<Rightarrow> string \<Rightarrow> nat \<Rightarrow> 'i list \<Rightarrow> ('i, 'b) world
     \<Rightarrow> (error + unit) \<times> ('i, 'b) world" where
  "write_crops E cache_dir nm image_ext i [] w = (Inr (), w)"
| "write_crops E cache_dir nm image_ext i (crop # crops) w =
     (case imwrite E (path_join cache_dir (crop_filename nm i image_ext)) crop w of
        (Inl e, w1) \<Rightarrow> (Inl e, w1)
      | (Inr ok, w1) \<Rightarrow> write_crops E cache_dir nm image_ext (Suc i) crops w1)"

text \<open>\<open>crops = self.cropper_fn(img)\<close>, with the call on the trace.\<close>

definition call_cropper ::
  "('i \<Rightarrow> error + 'i list) \<Rightarrow> 'i \<Rightarrow> ('i, 'b) world \<Rightarrow> (error + 'i list) \<times> ('i, 'b) world" where
  "call_cropper cf img w = (cf img, emit (Ev_cropper img) w)"

text \<open>
  \<open>save\<close> of both classes. \<open>PathImageSource.save\<close> ignores \<open>cache_dir\<close>. In
  \<open>CropImageSource.save\<close> without a cache directory the arguments of \<open>cv2.imwrite\<close> are
  evaluated first, and \<open>os.path.join(None, ...)\<close> raises \<open>TypeError\<close> there.
\<close>

fun save ::
  "('i, 'b) env \<Rightarrow> 'i ImageSource \<Rightarrow> string \<Rightarrow> string \<Rightarrow> string option \<Rightarrow> ('i, 'b) world
     \<Rightarrow> (error + unit) \<times> ('i, 'b) world" where
  "save E (PathImageSource p fns nm) save_dir image_ext cache_dir w =
     (case read E (PathImageSource p fns nm) w of
        (Inl e, w1) \<Rightarrow> (Inl e, w1)
      | (Inr img, w1) \<Rightarrow> write_img E (path_join save_dir (nm @ image_ext)) img w1)"
| "save E (CropImageSource orig i cf nm) save_dir image_ext None w =
     (case read E (CropImageSource orig i cf nm) w of
        (Inl e, w1) \<Rightarrow> (Inl e, w1)
      | (Inr img, w1) \<Rightarrow>
          (case call_cropper cf img w1 of
             (Inl e, w2) \<Rightarrow> (Inl e, w2)
           | (Inr crops, w2) \<Rightarrow>
               (case py_index crops i of
                  Inl e \<Rightarrow> (Inl e, w2)
                | Inr crop \<Rightarrow> (Inl TypeError, w2))))"
| "save E (CropImageSource orig i cf nm) save_dir image_ext (Some cache_dir) w =
     (case makedirs E cache_dir w of
        (Inl e, w1) \<Rightarrow> (Inl e, w1)
      | (Inr u, w1) \<Rightarrow>
          (let cached_file = path_join cache_dir (nm @ image_ext);
               populated =
                 (if \<not> path_exists w1 cached_file then
                    (case read E (CropImageSource orig i cf nm) w1 of
                       (Inl e, w2) \<Rightarrow> (Inl e, w2)
                     | (Inr img, w2) \<Rightarrow>
                         (case call_cropper cf img w2 of
                            (Inl e, w3) \<Rightarrow> (Inl e, w3)
                          | (Inr crops, w3) \<Rightarrow> write_crops E cache_dir nm image_ext 0 crops w3))
                  else (Inr (), w1))
           in case populated of
                (Inl e, w4) \<Rightarrow> (Inl e, w4)
              | (Inr u', w4) \<Rightarrow> rename E cached_file (path_join save_dir (nm @ image_ext)) w4))"

text \<open>\<open>paths2image_sources\<close>: one \<open>PathImageSource\<close> per path, appended in order.\<close>

fun paths2image_sources_loop ::
  "string list \<Rightarrow> ('i \<Rightarrow> error + 'i) list option \<Rightarrow> 'i ImageSource list \<Rightarrow> 'i ImageSource list" where
  "paths2image_sources_loop [] preprocess_fns image_sources = image_sources"
| "paths2image_sources_loop (p # paths) preprocess_fns image_sources =
     paths2image_sources_loop paths preprocess_fns
       (image_sources @ [PathImageSource_init p preprocess_fns None])"

definition paths2image_sources ::
  "string list \<Rightarrow> ('i \<Rightarrow> error + 'i) list option \<Rightarrow> 'i ImageSource list" where
  "paths2image_sources paths preprocess_fns = paths2image_sources_loop paths preprocess_fns []"

subsection \<open>Notions the properties are stated with\<close>


text \<open>
  A name without its last underscore-delimited segment, in the words of the specification:
  what stands before the last underscore, and nothing when there is no underscore.
\<close>

definition drop_last_segment :: "string \<Rightarrow> string" where
  "drop_last_segment nm = rev (tl (dropWhile (\<lambda>c. c \<noteq> CHR ''_'') (rev nm)))"

text \<open>The path \<open><dir>/<base>_<j><ext>\<close>.\<close>

definition crop_path :: "string \<Rightarrow> string \<Rightarrow> string \<Rightarrow> nat \<Rightarrow> string" where
  "crop_path dir base image_ext j = path_join dir (base @ ''_'' @ str_nat j @ image_ext)"

text \<open>
  The file a path names: the path is taken from the working directory unless it is
  absolute, and its components are walked from the root, an empty component and \<open>.\<close>
  staying in place, \<open>..\<close> going up one level. Two paths name the same file when the walks
  end in the same place.
\<close>

definition walk :: "string list \<Rightarrow> string \<Rightarrow> string list" where
  "walk acc seg =
     (if seg = [] \<or> seg = ''.'' then acc
      else if seg = ''..'' then butlast acc
      else acc @ [seg])"

definition resolve :: "('i, 'b) env \<Rightarrow> string \<Rightarrow> string list" where
  "resolve E p = foldl walk [] (split_on CHR ''/'' (path_join (cwd E) p))"

definition samefile :: "('i, 'b) env \<Rightarrow> string \<Rightarrow> string \<Rightarrow> bool" where
  "samefile E p q = (resolve E p = resolve E q)"

text \<open>The number a string of decimal digits denotes.\<close>

definition digit_val :: "char \<Rightarrow> nat" where
  "digit_val c = of_char c - 48"

definition dec_val :: "string \<Rightarrow> nat" where
  "dec_val s = foldl (\<lambda>a c. 10 * a + digit_val c) 0 s"

text \<open>The file in which the chain of original sources of a source ends.\<close>

fun source_path :: "'i ImageSource \<Rightarrow> string" where
  "source_path (PathImageSource p fns nm) = p"
| "source_path (CropImageSource orig i cf nm) = source_path orig"

text \<open>How often a trace calls a cropper function, and how often it reads a file.\<close>

fun is_cropper_call :: "('i, 'b) event \<Rightarrow> bool" where
  "is_cropper_call (Ev_cropper img) = True"
| "is_cropper_call e = False"

fun is_file_read :: "('i, 'b) event \<Rightarrow> bool" where
  "is_file_read (Ev_fromfile p) = True"
| "is_file_read e = False"

definition cropper_calls :: "('i, 'b) event list \<Rightarrow> nat" where
  "cropper_calls t = length (filter is_cropper_call t)"

definition file_reads :: "('i, 'b) event list \<Rightarrow> nat" where
  "file_reads t = length (filter is_file_read t)"

text \<open>
  Sequential application in the words of the specification: the functions from left to
  right, the output of each piped into the next; a function that raises ends the pipe.
\<close>

definition pipe_step :: "error + 'i \<Rightarrow> ('i \<Rightarrow> error + 'i) \<Rightarrow> error + 'i" where
  "pipe_step r fn = (case r of Inl e \<Rightarrow> Inl e | Inr x \<Rightarrow> fn x)"

definition pipeline :: "('i \<Rightarrow> error + 'i) list \<Rightarrow> 'i \<Rightarrow> error + 'i" where
  "pipeline fns x = foldl pipe_step (Inr x) fns"

subsection \<open>A concrete scenario\<close>

text \<open>
  The scenario of the specification, with numbers for pixel buffers and for file
  contents: the codec adds 100 when it encodes, no write fails, \<open>in/cat.jpg\<close> holds the
  image 7, and the cropper splits an image into four.
\<close>

definition scenario_env :: "(nat, nat) env" where
  "scenario_env =
     \<lparr>imdecode = (\<lambda>b. Inr b),
      imencode = (\<lambda>ext img. Inr (True, img + 100)),
      imwrite_enc = (\<lambda>p img. Inr (Some (img + 100))),
      creatable = (\<lambda>p. True),
      write_fault = (\<lambda>p b. None),
      makedirs_err = (\<lambda>d. None),
      cwd = ''/work''\<rparr>"

definition scenario_world :: "(nat, nat) world" where
  "scenario_world = \<lparr>files = [''in/cat.jpg'' \<mapsto> 7], trace = []\<rparr>"

definition cat_source :: "nat ImageSource" where
  "cat_source = PathImageSource ''in/cat.jpg'' [] ''cat''"

definition split_into_4 :: "nat \<Rightarrow> error + nat list" where
  "split_into_4 img = Inr [img, img + 1, img + 2, img + 3]"



text \<open>A codec whose \<open>imencode\<close> reports failure through its flag and returns an empty buffer.\<close>

definition failing_encode_env :: "(nat, nat) env" where
  "failing_encode_env = scenario_env\<lparr>imencode := (\<lambda>ext img. Inr (False, 0))\<rparr>"

section \<open>Lemmas\<close>

subsection \<open>Splitting and joining at underscores, decimal numerals\<close>

lemma split_on_nonempty: "split_on c s \<noteq> []"
  by (induction s) (auto split: list.splits)

lemma split_on_append: "split_on c (a @ c # b) = split_on c a @ split_on c b"
proof (induction a)
  case Nil
  show ?case by simp
next
  case (Cons x a)
  obtain s ss where s: "split_on c a = s # ss"
    using split_on_nonempty [of c a] by (cases "split_on c a") auto
  show ?case using Cons s by simp
qed

lemma split_on_notin: "c \<notin> set s \<Longrightarrow> split_on c s = [s]"
  by (induction s) auto

lemma py_join_split_on: "py_join [c] (split_on c s) = s"
proof (induction s)
  case Nil
  show ?case by simp
next
  case (Cons x s)
  obtain t ts where t: "split_on c s = t # ts"
    using split_on_nonempty [of c s] by (cases "split_on c s") auto
  show ?case
  proof (cases "x = c")
    case True
    with Cons t show ?thesis by simp
  next
    case False
    with Cons t show ?thesis by (cases ts) auto
  qed
qed

lemma prefix_of_append_last:
  "CHR ''_'' \<notin> set d \<Longrightarrow> py_join ''_'' (butlast (split_on CHR ''_'' (a @ CHR ''_'' # d))) = a"
  by (simp add: split_on_append split_on_notin py_join_split_on)

lemma prefix_no_underscore:
  "CHR ''_'' \<notin> set nm \<Longrightarrow> py_join ''_'' (butlast (split_on CHR ''_'' nm)) = []"
  by (simp add: split_on_notin)

lemma drop_last_segment_append:
  "CHR ''_'' \<notin> set d \<Longrightarrow> drop_last_segment (a @ CHR ''_'' # d) = a"
proof -
  assume "CHR ''_'' \<notin> set d"
  then have "dropWhile (\<lambda>c. c \<noteq> CHR ''_'') (rev d @ CHR ''_'' # rev a) = CHR ''_'' # rev a"
    by (subst dropWhile_append2) auto
  then show ?thesis by (simp add: drop_last_segment_def)
qed

lemma code_prefix_is_drop_last_segment:
  "py_join ''_'' (butlast (split_on CHR ''_'' nm)) = drop_last_segment nm"
proof (cases "CHR ''_'' \<in> set nm")
  case True
  then obtain a d where "nm = a @ CHR ''_'' # d" "CHR ''_'' \<notin> set d"
    by (auto dest: split_list_last)
  then show ?thesis
    by (simp add: prefix_of_append_last drop_last_segment_append)
next
  case False
  then have "dropWhile (\<lambda>c. c \<noteq> CHR ''_'') (rev nm) = []"
    by (intro dropWhile_eq_Nil_conv [THEN iffD2]) auto
  then show ?thesis
    by (simp only: prefix_no_underscore [OF False] drop_last_segment_def rev.simps list.sel)
qed

lemma digit_char_in: "d < 10 \<Longrightarrow> digit_char d \<in> set ''0123456789''"
  unfolding digit_char_def by (rule nth_mem) simp

lemma str_nat_digits: "set (str_nat n) \<subseteq> set ''0123456789''"
proof (induction n rule: str_nat.induct)
  case (1 n)
  show ?case
  proof (cases "n < 10")
    case True
    then show ?thesis using digit_char_in [of n] by (subst str_nat.simps) simp
  next
    case False
    have "n mod 10 < 10" by simp
    then have "digit_char (n mod 10) \<in> set ''0123456789''" by (rule digit_char_in)
    with False 1 show ?thesis by (subst str_nat.simps) simp
  qed
qed

lemma str_nat_no_underscore: "CHR ''_'' \<notin> set (str_nat n)"
  using str_nat_digits [of n] by auto

lemma digit_val_digit_char: "d < 10 \<Longrightarrow> digit_val (digit_char d) = d"
proof -
  assume "d < 10"
  then have "d \<in> {0,1,2,3,4,5,6,7,8,9}" by auto
  then show ?thesis by (auto simp: digit_val_def digit_char_def)
qed

lemma dec_val_str_nat: "dec_val (str_nat n) = n"
proof (induction n rule: str_nat.induct)
  case (1 n)
  show ?case
  proof (cases "n < 10")
    case True
    then show ?thesis
      by (subst str_nat.simps) (simp add: dec_val_def digit_val_digit_char)
  next
    case False
    with 1 have ih: "dec_val (str_nat (n div 10)) = n div 10" by simp
    have "dec_val (str_nat n) = 10 * dec_val (str_nat (n div 10)) + digit_val (digit_char (n mod 10))"
      using False by (subst str_nat.simps) (simp add: dec_val_def)
    also have "\<dots> = 10 * (n div 10) + n mod 10"
      by (simp add: ih digit_val_digit_char)
    finally show ?thesis by simp
  qed
qed

lemma str_nat_inj: "str_nat m = str_nat n \<Longrightarrow> m = n"
  by (metis dec_val_str_nat)

subsection \<open>The world under the primitives\<close>

lemma files_emit [simp]: "files (emit e w) = files w"
  by (simp add: emit_def)

lemma trace_emit [simp]: "trace (emit e w) = trace w @ [e]"
  by (simp add: emit_def)

lemma read_snd: "snd (read E s w) = emit (Ev_fromfile (source_path s)) w"
  by (induction s) (auto simp: fromfile_def split: option.splits sum.splits)

lemma read_fst_files: "files w1 = files w2 \<Longrightarrow> fst (read E s w1) = fst (read E s w2)"
  by (induction s) (auto simp: fromfile_def split: option.splits sum.splits)

lemma read_eq:
  "fst (read E s w) = r \<Longrightarrow> files w' = files w \<Longrightarrow>
     read E s w' = (r, emit (Ev_fromfile (source_path s)) w')"
  using read_snd [of E s w'] read_fst_files [of w' w E s]
  by (metis prod.collapse)

lemma cropper_calls_append [simp]: "cropper_calls (xs @ ys) = cropper_calls xs + cropper_calls ys"
  by (simp add: cropper_calls_def)

lemma file_reads_append [simp]: "file_reads (xs @ ys) = file_reads xs + file_reads ys"
  by (simp add: file_reads_def)

lemma cropper_calls_simps [simp]:
  "cropper_calls [] = 0"
  "cropper_calls (Ev_cropper img # t) = Suc (cropper_calls t)"
  "cropper_calls (Ev_fromfile p # t) = cropper_calls t"
  "cropper_calls (Ev_tofile p b # t) = cropper_calls t"
  "cropper_calls (Ev_imwrite p img # t) = cropper_calls t"
  "cropper_calls (Ev_makedirs p # t) = cropper_calls t"
  "cropper_calls (Ev_rename p q # t) = cropper_calls t"
  by (simp_all add: cropper_calls_def)

lemma file_reads_simps [simp]:
  "file_reads [] = 0"
  "file_reads (Ev_cropper img # t) = file_reads t"
  "file_reads (Ev_fromfile p # t) = Suc (file_reads t)"
  "file_reads (Ev_tofile p b # t) = file_reads t"
  "file_reads (Ev_imwrite p img # t) = file_reads t"
  "file_reads (Ev_makedirs p # t) = file_reads t"
  "file_reads (Ev_rename p q # t) = file_reads t"
  by (simp_all add: file_reads_def)

lemma save_warm:
  assumes "files w (path_join cache_dir (nm @ image_ext)) = Some b"
      and "makedirs_err E cache_dir = None"
  shows "save E (CropImageSource orig i cf nm) save_dir image_ext (Some cache_dir) w =
           rename E (path_join cache_dir (nm @ image_ext)) (path_join save_dir (nm @ image_ext))
             (emit (Ev_makedirs cache_dir) w)"
  using assms by (simp add: makedirs_def path_exists_def)

lemma save_makedirs_fails:
  assumes "makedirs_err E cache_dir = Some e"
  shows "save E (CropImageSource orig i cf nm) save_dir image_ext (Some cache_dir) w =
           (Inl e, emit (Ev_makedirs cache_dir) w)"
  using assms by (simp add: makedirs_def)

lemma rename_trace: "trace (snd (rename E src dst w)) = trace w @ [Ev_rename src dst]"
  by (simp add: rename_def Let_def split: option.splits)

lemma pipe_step_Inl: "foldl pipe_step (Inl e) fns = Inl e"
  by (induction fns) (simp_all add: pipe_step_def)

lemma apply_fns_pipeline: "apply_fns fns x = pipeline fns x"
proof (induction fns arbitrary: x)
  case Nil
  show ?case by (simp add: pipeline_def)
next
  case (Cons fn fns)
  show ?case
  proof (cases "fn x")
    case (Inl e)
    then show ?thesis by (simp add: pipeline_def pipe_step_def pipe_step_Inl)
  next
    case (Inr y)
    then show ?thesis using Cons [of y] by (simp add: pipeline_def pipe_step_def)
  qed
qed

lemma apply_fns_pure: "apply_fns (map (\<lambda>g. Inr \<circ> g) gs) x = Inr (foldl (\<lambda>y g. g y) x gs)"
  by (induction gs arbitrary: x) simp_all

lemma read_path:
  assumes "files w p = Some b" and "imdecode E b = Inr img0"
  shows "fst (read E (PathImageSource p fns nm) w) = apply_fns fns img0"
  using assms by (simp add: fromfile_def)

subsection \<open>File names\<close>

lemma basename_no_sep: "CHR ''/'' \<notin> set (basename p)"
proof
  assume "CHR ''/'' \<in> set (basename p)"
  then have "CHR ''/'' \<in> set (takeWhile (\<lambda>c. c \<noteq> CHR ''/'') (rev p))"
    by (simp add: basename_def)
  then show False by (auto dest: set_takeWhileD)
qed

lemma splitext_parts:
  "q = fst (splitext q) @ snd (splitext q) \<and>
   (snd (splitext q) = [] \<or>
    hd (snd (splitext q)) = CHR ''.'' \<and> CHR ''.'' \<notin> set (tl (snd (splitext q))))"
proof -
  let ?P = "\<lambda>c. c \<noteq> CHR ''.''"
  let ?e = "takeWhile ?P (rev q)"
  let ?rest = "dropWhile ?P (rev q)"
  have e: "CHR ''.'' \<notin> set ?e" by (auto dest: set_takeWhileD)
  show ?thesis
  proof (cases "?rest = [] \<or> CHR ''/'' \<in> set ?e
                 \<or> \<not> list_ex (\<lambda>c. c \<noteq> CHR ''.'') (takeWhile (\<lambda>c. c \<noteq> CHR ''/'') (tl ?rest))")
    case True
    then show ?thesis by (auto simp: splitext_def Let_def)
  next
    case False
    then have ne: "?rest \<noteq> []" by blast
    then have "hd ?rest = CHR ''.''" using hd_dropWhile [of ?P "rev q"] by simp
    with ne have rest: "?rest = CHR ''.'' # tl ?rest" by (cases ?rest) auto
    have "rev q = ?e @ ?rest" by simp
    then have "rev q = ?e @ CHR ''.'' # tl ?rest" using rest by metis
    then have "rev (rev q) = rev (?e @ CHR ''.'' # tl ?rest)" by simp
    then have q: "q = rev (tl ?rest) @ CHR ''.'' # rev ?e" by simp
    have sp: "splitext q = (rev (tl ?rest), CHR ''.'' # rev ?e)"
      using False by (simp add: splitext_def Let_def)
    show ?thesis using q e by (simp add: sp)
  qed
qed

lemma loop_eq:
  "paths2image_sources_loop paths fns acc =
     acc @ map (\<lambda>p. PathImageSource p (case fns of None \<Rightarrow> [] | Some fs \<Rightarrow> fs)
                       (fst (splitext (basename p)))) paths"
  by (induction paths arbitrary: acc) (simp_all add: PathImageSource_init_def)

subsection \<open>Cache paths\<close>

lemma crop_filename_eq:
  "crop_filename nm j image_ext = drop_last_segment nm @ ''_'' @ str_nat j @ image_ext"
  by (simp add: crop_filename_def code_prefix_is_drop_last_segment)

lemma crop_target_eq:
  "path_join dir (crop_filename nm j image_ext) = crop_path dir (drop_last_segment nm) image_ext j"
  by (simp add: crop_filename_eq crop_path_def)

lemma path_join_cancel:
  assumes "path_join c x = path_join c y"
      and "(x \<noteq> [] \<and> hd x = CHR ''/'') = (y \<noteq> [] \<and> hd y = CHR ''/'')"
  shows "x = y"
  using assms by (auto simp: path_join_def split: if_splits)

lemma path_join_relative:
  assumes "\<not> (y \<noteq> [] \<and> hd y = CHR ''/'')"
  shows "\<exists>c'. path_join c y = c' @ y"
proof (cases "c = [] \<or> last c = CHR ''/''")
  case True
  with assms have "path_join c y = c @ y" by (auto simp: path_join_def)
  then show ?thesis ..
next
  case False
  with assms have "path_join c y = (c @ ''/'') @ y" by (auto simp: path_join_def)
  then show ?thesis ..
qed

lemma crop_path_inj:
  assumes "crop_path dir base image_ext j = crop_path dir base image_ext k"
  shows "j = k"
proof -
  let ?x = "base @ ''_'' @ str_nat j @ image_ext" and ?y = "base @ ''_'' @ str_nat k @ image_ext"
  have "(?x \<noteq> [] \<and> hd ?x = CHR ''/'') = (?y \<noteq> [] \<and> hd ?y = CHR ''/'')"
    by (cases base) simp_all
  with assms have "?x = ?y"
    unfolding crop_path_def by (rule path_join_cancel)
  then have "str_nat j @ image_ext = str_nat k @ image_ext" by simp
  then have "str_nat j = str_nat k" by simp
  then show ?thesis by (rule str_nat_inj)
qed

lemma drop_last_segment_prefix:
  "drop_last_segment nm = [] \<or> (nm \<noteq> [] \<and> hd (drop_last_segment nm) = hd nm)"
proof (cases "CHR ''_'' \<in> set nm")
  case True
  then obtain a d where nm: "nm = a @ CHR ''_'' # d" and d: "CHR ''_'' \<notin> set d"
    by (auto dest: split_list_last)
  have "drop_last_segment nm = a" unfolding nm using d by (rule drop_last_segment_append)
  then show ?thesis using nm by (cases a) auto
next
  case False
  then have "drop_last_segment nm = []"
    using code_prefix_is_drop_last_segment [of nm] prefix_no_underscore [of nm] by simp
  then show ?thesis ..
qed

lemma cache_key_is_crop_path:
  assumes "path_join c (nm @ image_ext) = crop_path c (drop_last_segment nm) image_ext k"
  shows "nm = drop_last_segment nm @ ''_'' @ str_nat k"
proof -
  let ?pre = "drop_last_segment nm"
  let ?x = "nm @ image_ext" and ?y = "?pre @ ''_'' @ str_nat k @ image_ext"
  let ?abs = "\<lambda>z. z \<noteq> [] \<and> hd z = CHR ''/''"
  have eq: "path_join c ?x = path_join c ?y" using assms by (simp add: crop_path_def)
  have pre: "?pre = [] \<or> (nm \<noteq> [] \<and> hd ?pre = hd nm)" by (rule drop_last_segment_prefix)
  consider (same) "?abs ?x = ?abs ?y" | (xabs) "?abs ?x" "\<not> ?abs ?y" | (yabs) "\<not> ?abs ?x" "?abs ?y"
    by blast
  then show ?thesis
  proof cases
    case same
    with eq have "?x = ?y" by (rule path_join_cancel)
    then show ?thesis by simp
  next
    case xabs
    have "?pre = []"
    proof (rule ccontr)
      assume ne: "?pre \<noteq> []"
      with pre have "nm \<noteq> []" "hd ?pre = hd nm" by auto
      with ne have "hd ?y = hd ?x" by simp
      with xabs show False by simp
    qed
    then have y: "?y = ''_'' @ str_nat k @ image_ext" by simp
    from xabs have px: "path_join c ?x = ?x" by (simp add: path_join_def)
    obtain c' where py: "path_join c ?y = c' @ ?y"
      using path_join_relative [OF xabs(2)] by blast
    from eq px py y have "nm @ image_ext = (c' @ ''_'' @ str_nat k) @ image_ext" by simp
    then have nm: "nm = c' @ CHR ''_'' # str_nat k" by simp
    have "drop_last_segment (c' @ CHR ''_'' # str_nat k) = c'"
      using str_nat_no_underscore by (rule drop_last_segment_append)
    with nm \<open>?pre = []\<close> have "c' = []" by simp
    with nm \<open>?pre = []\<close> show ?thesis by simp
  next
    case yabs
    have "?pre \<noteq> []" using yabs(2) by auto
    with pre have "nm \<noteq> []" "hd ?pre = hd nm" by auto
    with \<open>?pre \<noteq> []\<close> yabs have False by simp
    then show ?thesis ..
  qed
qed

subsection \<open>Populating the cache and moving the entry\<close>

lemma imwrite_cases:
  "imwrite E p img w =
     (case imwrite_enc E p img of
        Inl e \<Rightarrow> (Inl e, emit (Ev_imwrite p img) w)
      | Inr None \<Rightarrow> (Inr False, emit (Ev_imwrite p img) w)
      | Inr (Some b) \<Rightarrow>
          if creatable E p
          then (Inr True, (emit (Ev_imwrite p img) w)\<lparr>files := (files w)(p \<mapsto> b)\<rparr>)
          else (Inr False, emit (Ev_imwrite p img) w))"
  by (simp add: imwrite_def Let_def split: sum.splits option.splits)

lemma imwrite_trace: "trace (snd (imwrite E p img w)) = trace w @ [Ev_imwrite p img]"
  by (simp add: imwrite_cases split: sum.splits option.splits)

lemma imwrite_files_other: "q \<noteq> p \<Longrightarrow> files (snd (imwrite E p img w)) q = files w q"
  by (simp add: imwrite_cases split: sum.splits option.splits)

lemma imwrite_files_written:
  "imwrite_enc E p img = Inr (Some b) \<Longrightarrow> creatable E p \<Longrightarrow> files (snd (imwrite E p img w)) p = Some b"
  by (simp add: imwrite_cases)

lemma imwrite_no_raise:
  "(\<forall>e. imwrite_enc E p img \<noteq> Inl e) \<Longrightarrow> \<exists>ok. fst (imwrite E p img w) = Inr ok"
  by (cases "imwrite_enc E p img") (auto simp: imwrite_cases split: option.splits)

lemma imwrite_creates_only:
  "files (snd (imwrite E p img w)) q \<noteq> None \<Longrightarrow> files w q \<noteq> None \<or> q = p"
  by (cases "q = p") (simp_all add: imwrite_files_other)

text \<open>What the loop over the crops can create: nothing but the crop paths.\<close>

lemma write_crops_creates_only:
  "files (snd (write_crops E c nm ext i crops w)) q \<noteq> None \<Longrightarrow>
     files w q \<noteq> None \<or> (\<exists>j<length crops. q = crop_path c (drop_last_segment nm) ext (i + j))"
proof (induction crops arbitrary: i w)
  case Nil
  then show ?case by simp
next
  case (Cons crop crops)
  let ?p = "path_join c (crop_filename nm i ext)"
  obtain r w1 where iw: "imwrite E ?p crop w = (r, w1)" by (cases "imwrite E ?p crop w")
  have p: "?p = crop_path c (drop_last_segment nm) ext (i + 0)" by (simp add: crop_target_eq)
  show ?case
  proof (cases r)
    case (Inl e)
    with Cons.prems iw have "files w1 q \<noteq> None" by simp
    then have "files w q \<noteq> None \<or> q = ?p"
      using imwrite_creates_only [of E ?p crop w q] iw by simp
    with p show ?thesis by auto
  next
    case (Inr ok)
    with Cons.prems iw have "files (snd (write_crops E c nm ext (Suc i) crops w1)) q \<noteq> None" by simp
    then have "files w1 q \<noteq> None \<or> (\<exists>j<length crops. q = crop_path c (drop_last_segment nm) ext (Suc i + j))"
      by (rule Cons.IH)
    then show ?thesis
    proof
      assume "files w1 q \<noteq> None"
      then have "files w q \<noteq> None \<or> q = ?p"
        using imwrite_creates_only [of E ?p crop w q] iw by simp
      with p show ?thesis by auto
    next
      assume "\<exists>j<length crops. q = crop_path c (drop_last_segment nm) ext (Suc i + j)"
      then obtain j where "j < length crops" "q = crop_path c (drop_last_segment nm) ext (i + Suc j)" by auto
      then have "Suc j < length (crop # crops) \<and> q = crop_path c (drop_last_segment nm) ext (i + Suc j)" by simp
      then show ?thesis by blast
    qed
  qed
qed

text \<open>The loop when no \<open>imwrite\<close> raises: it ends normally, calls \<open>imwrite\<close> once per crop in
  order, leaves every crop that could be encoded and created at its path, and touches no other path.\<close>

lemma write_crops_no_raise:
  assumes "\<forall>j<length crops. \<forall>e. imwrite_enc E (crop_path c (drop_last_segment nm) ext (i + j)) (crops ! j) \<noteq> Inl e"
  shows "fst (write_crops E c nm ext i crops w) = Inr ()
       \<and> trace (snd (write_crops E c nm ext i crops w)) =
           trace w @ map (\<lambda>(j, crop). Ev_imwrite (crop_path c (drop_last_segment nm) ext j) crop) (enumerate i crops)
       \<and> (\<forall>j<length crops. \<forall>b.
            imwrite_enc E (crop_path c (drop_last_segment nm) ext (i + j)) (crops ! j) = Inr (Some b) \<longrightarrow>
            creatable E (crop_path c (drop_last_segment nm) ext (i + j)) \<longrightarrow>
            files (snd (write_crops E c nm ext i crops w)) (crop_path c (drop_last_segment nm) ext (i + j)) = Some b)
       \<and> (\<forall>q. (\<forall>j<length crops. q \<noteq> crop_path c (drop_last_segment nm) ext (i + j)) \<longrightarrow>
            files (snd (write_crops E c nm ext i crops w)) q = files w q)"
  using assms
proof (induction crops arbitrary: i w)
  case Nil
  show ?case by simp
next
  case (Cons crop crops)
  let ?P = "crop_path c (drop_last_segment nm) ext"
  have p: "path_join c (crop_filename nm i ext) = ?P i" by (simp add: crop_target_eq)
  have nr0: "\<forall>e. imwrite_enc E (?P i) crop \<noteq> Inl e"
    using Cons.prems [rule_format, of 0] by simp
  obtain ok where ok: "fst (imwrite E (?P i) crop w) = Inr ok"
    using imwrite_no_raise [OF nr0] by blast
  define w1 where "w1 = snd (imwrite E (?P i) crop w)"
  have iw: "imwrite E (?P i) crop w = (Inr ok, w1)"
    using ok by (simp add: w1_def prod_eq_iff)
  have step: "write_crops E c nm ext i (crop # crops) w = write_crops E c nm ext (Suc i) crops w1"
    by (simp add: p iw)
  have nr: "\<forall>j<length crops. \<forall>e. imwrite_enc E (?P (Suc i + j)) (crops ! j) \<noteq> Inl e"
  proof (intro allI impI)
    fix j e assume "j < length crops"
    then have "Suc j < length (crop # crops)" by simp
    from Cons.prems [rule_format, OF this, of e] show "imwrite_enc E (?P (Suc i + j)) (crops ! j) \<noteq> Inl e"
      by simp
  qed
  note ih = Cons.IH [OF nr, of w1]
  have t1: "trace w1 = trace w @ [Ev_imwrite (?P i) crop]"
    unfolding w1_def by (rule imwrite_trace)
  have c1: "fst (write_crops E c nm ext i (crop # crops) w) = Inr ()"
    using ih by (simp only: step)
  have c2: "trace (snd (write_crops E c nm ext i (crop # crops) w)) =
      trace w @ map (\<lambda>(j, crop). Ev_imwrite (?P j) crop) (enumerate i (crop # crops))"
    using ih by (simp only: step) (simp add: t1)
  have c4: "\<forall>q. (\<forall>j<length (crop # crops). q \<noteq> ?P (i + j)) \<longrightarrow>
      files (snd (write_crops E c nm ext i (crop # crops) w)) q = files w q"
  proof (intro allI impI)
    fix q assume q: "\<forall>j<length (crop # crops). q \<noteq> ?P (i + j)"
    have q0: "q \<noteq> ?P i" using q [rule_format, of 0] by simp
    have "\<forall>j<length crops. q \<noteq> ?P (Suc i + j)"
    proof (intro allI impI)
      fix j assume "j < length crops"
      then have "Suc j < length (crop # crops)" by simp
      from q [rule_format, OF this] show "q \<noteq> ?P (Suc i + j)" by simp
    qed
    with ih have "files (snd (write_crops E c nm ext (Suc i) crops w1)) q = files w1 q" by blast
    also have "\<dots> = files w q" unfolding w1_def using q0 by (rule imwrite_files_other)
    finally show "files (snd (write_crops E c nm ext i (crop # crops) w)) q = files w q"
      by (simp only: step)
  qed
  have c3: "\<forall>j<length (crop # crops). \<forall>b.
      imwrite_enc E (?P (i + j)) ((crop # crops) ! j) = Inr (Some b) \<longrightarrow> creatable E (?P (i + j)) \<longrightarrow>
      files (snd (write_crops E c nm ext i (crop # crops) w)) (?P (i + j)) = Some b"
  proof (intro allI impI)
    fix j b
    assume j: "j < length (crop # crops)"
      and enc: "imwrite_enc E (?P (i + j)) ((crop # crops) ! j) = Inr (Some b)"
      and cr: "creatable E (?P (i + j))"
    show "files (snd (write_crops E c nm ext i (crop # crops) w)) (?P (i + j)) = Some b"
    proof (cases j)
      case 0
      have "\<forall>k<length crops. ?P i \<noteq> ?P (Suc i + k)"
        by (auto dest: crop_path_inj)
      with ih have "files (snd (write_crops E c nm ext (Suc i) crops w1)) (?P i) = files w1 (?P i)" by blast
      also have "\<dots> = Some b"
        unfolding w1_def using enc cr 0 by (simp add: imwrite_files_written)
      finally show ?thesis using 0 by (simp only: step) simp
    next
      case (Suc k)
      with j have k: "k < length crops" by simp
      from enc cr Suc have "imwrite_enc E (?P (Suc i + k)) (crops ! k) = Inr (Some b)" "creatable E (?P (Suc i + k))"
        by simp_all
      with ih k have "files (snd (write_crops E c nm ext (Suc i) crops w1)) (?P (Suc i + k)) = Some b" by blast
      then show ?thesis using Suc by (simp only: step) simp
    qed
  qed
  from c1 c2 c3 c4 show ?case by blast
qed

lemma rename_files_other:
  "q \<noteq> src \<Longrightarrow> q \<noteq> dst \<Longrightarrow> files (snd (rename E src dst w)) q = files w q"
  by (simp add: rename_def Let_def split: option.splits)

lemma rename_missing:
  "files w src = None \<Longrightarrow> rename E src dst w = (Inl FileNotFoundError, emit (Ev_rename src dst) w)"
  by (simp add: rename_def Let_def)

lemma rename_ok:
  "files w src = Some b \<Longrightarrow> creatable E dst \<Longrightarrow>
     rename E src dst w =
       (Inr (), (emit (Ev_rename src dst) w)\<lparr>files := ((files w)(src := None))(dst \<mapsto> b)\<rparr>)"
  by (simp add: rename_def Let_def)

lemma rename_Inr_src: "fst (rename E src dst w) = Inr u \<Longrightarrow> files w src \<noteq> None"
  by (auto simp: rename_def Let_def split: option.splits)

lemma cropper_calls_imwrites:
  "cropper_calls (map (\<lambda>(j, crop). Ev_imwrite (f j) crop) xs) = 0"
proof (induction xs)
  case Nil
  show ?case by simp
next
  case (Cons x xs)
  obtain j crop where x: "x = (j, crop)" by (cases x)
  show ?case using Cons by (simp add: x)
qed

text \<open>\<open>save\<close> with a cache directory when the cache key file does not exist.\<close>

lemma save_cold:
  assumes "files w (path_join cache_dir (nm @ image_ext)) = None"
  shows "save E (CropImageSource orig i cf nm) save_dir image_ext (Some cache_dir) w =
    (case makedirs_err E cache_dir of
       Some e \<Rightarrow> (Inl e, emit (Ev_makedirs cache_dir) w)
     | None \<Rightarrow>
        (case fst (read E orig w) of
           Inl e \<Rightarrow> (Inl e, emit (Ev_fromfile (source_path orig)) (emit (Ev_makedirs cache_dir) w))
         | Inr img \<Rightarrow>
            (case cf img of
               Inl e \<Rightarrow> (Inl e, emit (Ev_cropper img)
                          (emit (Ev_fromfile (source_path orig)) (emit (Ev_makedirs cache_dir) w)))
             | Inr crops \<Rightarrow>
                (case write_crops E cache_dir nm image_ext 0 crops
                        (emit (Ev_cropper img)
                          (emit (Ev_fromfile (source_path orig)) (emit (Ev_makedirs cache_dir) w))) of
                   (Inl e, w4) \<Rightarrow> (Inl e, w4)
                 | (Inr u, w4) \<Rightarrow>
                     rename E (path_join cache_dir (nm @ image_ext))
                       (path_join save_dir (nm @ image_ext)) w4))))"
proof -
  have rd: "read E orig (emit (Ev_makedirs cache_dir) w) =
      (fst (read E orig w), emit (Ev_fromfile (source_path orig)) (emit (Ev_makedirs cache_dir) w))"
    by (rule read_eq) simp_all
  show ?thesis
    using assms
    by (simp add: makedirs_def path_exists_def call_cropper_def rd
          split: option.splits sum.splits prod.splits)
qed

lemma save_cold_populated:
  assumes mk: "makedirs_err E cache_dir = None"
      and cold: "files w (path_join cache_dir (nm @ image_ext)) = None"
      and rd: "fst (read E orig w) = Inr img"
      and cf: "cf img = Inr crops"
      and nr: "\<forall>j<length crops. \<forall>e.
                 imwrite_enc E (crop_path cache_dir (drop_last_segment nm) image_ext j) (crops ! j) \<noteq> Inl e"
  shows "\<exists>w4. save E (CropImageSource orig i cf nm) save_dir image_ext (Some cache_dir) w =
             rename E (path_join cache_dir (nm @ image_ext)) (path_join save_dir (nm @ image_ext)) w4
         \<and> trace w4 =
             trace w @ [Ev_makedirs cache_dir, Ev_fromfile (source_path orig), Ev_cropper img] @
               map (\<lambda>(j, crop). Ev_imwrite (crop_path cache_dir (drop_last_segment nm) image_ext j) crop)
                 (enumerate 0 crops)
         \<and> (\<forall>j<length crops. \<forall>b.
              imwrite_enc E (crop_path cache_dir (drop_last_segment nm) image_ext j) (crops ! j) = Inr (Some b) \<longrightarrow>
              creatable E (crop_path cache_dir (drop_last_segment nm) image_ext j) \<longrightarrow>
              files w4 (crop_path cache_dir (drop_last_segment nm) image_ext j) = Some b)
         \<and> (\<forall>q. (\<forall>j<length crops. q \<noteq> crop_path cache_dir (drop_last_segment nm) image_ext j) \<longrightarrow>
              files w4 q = files w q)"
proof -
  let ?w3 = "emit (Ev_cropper img)
               (emit (Ev_fromfile (source_path orig)) (emit (Ev_makedirs cache_dir) w))"
  let ?r = "write_crops E cache_dir nm image_ext 0 crops ?w3"
  have nr0: "\<forall>j<length crops. \<forall>e.
      imwrite_enc E (crop_path cache_dir (drop_last_segment nm) image_ext (0 + j)) (crops ! j) \<noteq> Inl e"
    using nr by simp
  note wc = write_crops_no_raise [OF nr0, of ?w3]
  have fstr: "fst ?r = Inr ()" using wc by blast
  then have r: "?r = (Inr (), snd ?r)" by (simp add: prod_eq_iff)
  have sv: "save E (CropImageSource orig i cf nm) save_dir image_ext (Some cache_dir) w =
      rename E (path_join cache_dir (nm @ image_ext)) (path_join save_dir (nm @ image_ext)) (snd ?r)"
    by (subst save_cold [OF cold]) (simp add: mk rd cf, subst r, simp)
  have tr: "trace (snd ?r) =
      trace w @ [Ev_makedirs cache_dir, Ev_fromfile (source_path orig), Ev_cropper img] @
        map (\<lambda>(j, crop). Ev_imwrite (crop_path cache_dir (drop_last_segment nm) image_ext j) crop)
          (enumerate 0 crops)"
    using wc by simp
  have fl: "\<forall>j<length crops. \<forall>b.
      imwrite_enc E (crop_path cache_dir (drop_last_segment nm) image_ext j) (crops ! j) = Inr (Some b) \<longrightarrow>
      creatable E (crop_path cache_dir (drop_last_segment nm) image_ext j) \<longrightarrow>
      files (snd ?r) (crop_path cache_dir (drop_last_segment nm) image_ext j) = Some b"
    using wc by simp
  have fr: "\<forall>q. (\<forall>j<length crops. q \<noteq> crop_path cache_dir (drop_last_segment nm) image_ext j) \<longrightarrow>
      files (snd ?r) q = files w q"
    using wc by simp
  from sv tr fl fr show ?thesis by blast
qed

subsection \<open>The scenario\<close>

lemma scenario_read: "fst (read scenario_env cat_source scenario_world) = Inr 7"
  by (simp add: scenario_env_def scenario_world_def cat_source_def fromfile_def)

lemma scenario_no_raise: "\<forall>e. imwrite_enc scenario_env p img \<noteq> Inl e"
  by (simp add: scenario_env_def)

lemmas scenario_eval =
  scenario_env_def scenario_world_def cat_source_def split_into_4_def makedirs_def
  path_exists_def path_join_def fromfile_def call_cropper_def imwrite_def crop_filename_def
  rename_def emit_def str_nat.simps digit_char_def Let_def

subsection \<open>A group saved in sequence\<close>












lemma samefile_spellings:
  "samefile scenario_env ''/cache/./cat_0.jpg'' ''/cache/cat_0.jpg''"
  "samefile scenario_env ''/cache//x/../cat_0.jpg'' ''/cache/cat_0.jpg''"
  "samefile scenario_env ''cache/cat_0.jpg'' ''/work/cache/cat_0.jpg''"
  "\<not> samefile scenario_env ''/out/cat_0.jpg'' ''/cache/cat_0.jpg''"
  by (simp_all add: samefile_def resolve_def walk_def path_join_def scenario_env_def)

subsection \<open>Where an error comes from\<close>

lemma rename_uncreatable:
  "files w src = Some b \<Longrightarrow> \<not> creatable E dst \<Longrightarrow>
     rename E src dst w = (Inl OSError, emit (Ev_rename src dst) w)"
  by (simp add: rename_def Let_def)

lemma save_no_cache_cases:
  "save E (CropImageSource orig i cf nm) save_dir image_ext None w =
     (case fst (read E orig w) of
        Inl e \<Rightarrow> (Inl e, emit (Ev_fromfile (source_path orig)) w)
      | Inr img \<Rightarrow>
          (case cf img of
             Inl e \<Rightarrow> (Inl e, emit (Ev_cropper img) (emit (Ev_fromfile (source_path orig)) w))
           | Inr crops \<Rightarrow>
               (case py_index crops i of
                  Inl e \<Rightarrow> (Inl e, emit (Ev_cropper img) (emit (Ev_fromfile (source_path orig)) w))
                | Inr crop \<Rightarrow>
                    (Inl TypeError, emit (Ev_cropper img) (emit (Ev_fromfile (source_path orig)) w)))))"
proof -
  obtain r where r: "fst (read E orig w) = r" by simp
  have rd: "read E orig w = (r, emit (Ev_fromfile (source_path orig)) w)"
    using read_eq [OF r refl] .
  show ?thesis
    using r by (auto simp: rd call_cropper_def split: sum.splits)
qed

lemma apply_fns_raise:
  "apply_fns pre x = Inr y \<Longrightarrow> fn y = Inl e \<Longrightarrow> apply_fns (pre @ fn # post) x = Inl e"
  by (induction pre arbitrary: x) (auto split: sum.splits)

lemma read_path_cases:
  "read E (PathImageSource p fns nm) w =
     (case files w p of
        None \<Rightarrow> (Inl FileNotFoundError, emit (Ev_fromfile p) w)
      | Some b \<Rightarrow>
          (case imdecode E b of
             Inl e \<Rightarrow> (Inl e, emit (Ev_fromfile p) w)
           | Inr img \<Rightarrow> (apply_fns fns img, emit (Ev_fromfile p) w)))"
  by (simp add: fromfile_def split: option.splits sum.splits)

lemma save_path_cases:
  "save E (PathImageSource p fns nm) save_dir image_ext cache_dir w =
     (case fst (read E (PathImageSource p fns nm) w) of
        Inl e \<Rightarrow> (Inl e, emit (Ev_fromfile p) w)
      | Inr img \<Rightarrow>
          (case imencode E (snd (splitext (basename (path_join save_dir (nm @ image_ext))))) img of
             Inl e \<Rightarrow> (Inl e, emit (Ev_fromfile p) w)
           | Inr (ok, buf) \<Rightarrow>
               if \<not> creatable E (path_join save_dir (nm @ image_ext))
               then (Inl OSError, emit (Ev_tofile (path_join save_dir (nm @ image_ext)) buf)
                                    (emit (Ev_fromfile p) w))
               else (case write_fault E (path_join save_dir (nm @ image_ext)) buf of
                       Some part \<Rightarrow>
                         (Inl OSError, (emit (Ev_tofile (path_join save_dir (nm @ image_ext)) buf)
                                         (emit (Ev_fromfile p) w))
                                       \<lparr>files := (files w)(path_join save_dir (nm @ image_ext) \<mapsto> part)\<rparr>)
                     | None \<Rightarrow>
                         (Inr (), (emit (Ev_tofile (path_join save_dir (nm @ image_ext)) buf)
                                    (emit (Ev_fromfile p) w))
                                  \<lparr>files := (files w)(path_join save_dir (nm @ image_ext) \<mapsto> buf)\<rparr>))))"
proof -
  have rd: "read E (PathImageSource p fns nm) w =
      (fst (read E (PathImageSource p fns nm) w), emit (Ev_fromfile p) w)"
    using read_snd [of E "PathImageSource p fns nm" w] by (simp add: prod_eq_iff del: read.simps)
  show ?thesis
    by (subst save.simps, subst rd)
       (simp add: write_img_def tofile_def Let_def split: sum.splits prod.splits option.splits del: read.simps)
qed

lemma write_crops_raise:
  "j < length crops \<Longrightarrow>
   (\<forall>k<j. \<forall>e'. imwrite_enc E (crop_path c (drop_last_segment nm) ext (i + k)) (crops ! k) \<noteq> Inl e') \<Longrightarrow>
   imwrite_enc E (crop_path c (drop_last_segment nm) ext (i + j)) (crops ! j) = Inl e \<Longrightarrow>
   fst (write_crops E c nm ext i crops w) = Inl e
   \<and> trace (snd (write_crops E c nm ext i crops w)) =
       trace w @ map (\<lambda>(k, crop). Ev_imwrite (crop_path c (drop_last_segment nm) ext k) crop)
                   (take (Suc j) (enumerate i crops))"
proof (induction crops arbitrary: i j w)
  case Nil
  then show ?case by simp
next
  case (Cons crop crops)
  let ?P = "crop_path c (drop_last_segment nm) ext"
  have p: "path_join c (crop_filename nm i ext) = ?P i" by (simp add: crop_target_eq)
  show ?case
  proof (cases j)
    case 0
    with Cons.prems(3) have "imwrite_enc E (?P i) crop = Inl e" by simp
    then have "imwrite E (?P i) crop w = (Inl e, emit (Ev_imwrite (?P i) crop) w)"
      by (simp add: imwrite_cases)
    then show ?thesis using 0 by (simp add: p)
  next
    case (Suc j')
    have nr0: "\<forall>e'. imwrite_enc E (?P i) crop \<noteq> Inl e'"
      using Cons.prems(2) [rule_format, of 0] Suc by simp
    obtain ok where ok: "fst (imwrite E (?P i) crop w) = Inr ok"
      using imwrite_no_raise [OF nr0] by blast
    define w1 where "w1 = snd (imwrite E (?P i) crop w)"
    have iw: "imwrite E (?P i) crop w = (Inr ok, w1)"
      using ok by (simp add: w1_def prod_eq_iff)
    have step: "write_crops E c nm ext i (crop # crops) w = write_crops E c nm ext (Suc i) crops w1"
      by (simp add: p iw)
    have t1: "trace w1 = trace w @ [Ev_imwrite (?P i) crop]"
      unfolding w1_def by (rule imwrite_trace)
    have a: "j' < length crops" using Cons.prems(1) Suc by simp
    have b: "\<forall>k<j'. \<forall>e'. imwrite_enc E (?P (Suc i + k)) (crops ! k) \<noteq> Inl e'"
    proof (intro allI impI)
      fix k e' assume "k < j'"
      then have "Suc k < j" using Suc by simp
      from Cons.prems(2) [rule_format, OF this, of e'] show "imwrite_enc E (?P (Suc i + k)) (crops ! k) \<noteq> Inl e'"
        by simp
    qed
    have c: "imwrite_enc E (?P (Suc i + j')) (crops ! j') = Inl e"
      using Cons.prems(3) Suc by simp
    note ih = Cons.IH [OF a b c, of w1]
    show ?thesis using ih Suc by (simp only: step) (simp add: t1)
  qed
qed

section \<open>The claims\<close>

text \<open>
  C5: \<open>CropImageSource.read\<close> returns exactly what the \<open>read\<close> of its original source
  returns, with the same effects, and neither the crop index nor the cropper function
  (nor the name) has any influence on it.
\<close>

theorem C5_crop_read_is_original_read:
  "read E (CropImageSource orig i cf nm) w = read E orig w \<and>
   read E (CropImageSource orig i cf nm) w = read E (CropImageSource orig i' cf' nm') w"
  by simp

text \<open>
  C9: with a cache directory given, \<open>CropImageSource.save\<close> does not consult the crop
  index: two instances that differ only in it return the same result and leave the same
  world, trace of file operations included.
\<close>

theorem C9_cached_save_ignores_idx:
  "save E (CropImageSource orig i cf nm) save_dir image_ext (Some cache_dir) w =
   save E (CropImageSource orig i' cf nm) save_dir image_ext (Some cache_dir) w"
  by (simp add: Let_def split: prod.splits sum.splits)

text \<open>
  C2: when the cache key file \<open><cache_dir>/<name><image_ext>\<close> exists as the call begins,
  \<open>CropImageSource.save\<close> calls \<open>makedirs\<close> and, if that succeeds, \<open>rename\<close>, and nothing
  else: the cropper function is not invoked and no file is read.
\<close>

theorem C2_warm_cache_skips_cropper:
  assumes "files w (path_join cache_dir (nm @ image_ext)) = Some b"
  shows "trace (snd (save E (CropImageSource orig i cf nm) save_dir image_ext (Some cache_dir) w)) =
           trace w @ Ev_makedirs cache_dir #
             (case makedirs_err E cache_dir of
                None \<Rightarrow> [Ev_rename (path_join cache_dir (nm @ image_ext)) (path_join save_dir (nm @ image_ext))]
              | Some e \<Rightarrow> [])
       \<and> cropper_calls (trace (snd (save E (CropImageSource orig i cf nm) save_dir image_ext (Some cache_dir) w))) =
           cropper_calls (trace w)
       \<and> file_reads (trace (snd (save E (CropImageSource orig i cf nm) save_dir image_ext (Some cache_dir) w))) =
           file_reads (trace w)"
proof (cases "makedirs_err E cache_dir")
  case None
  show ?thesis
    by (simp only: save_warm [OF assms None] rename_trace) (simp add: None)
next
  case (Some e)
  show ?thesis
    by (simp only: save_makedirs_fails [OF Some]) (simp add: Some)
qed

theorem C2_warm_cache_witness:
  "files (scenario_world\<lparr>files := (files scenario_world)(''/cache/cat_2.jpg'' \<mapsto> 109)\<rparr>)
      (path_join ''/cache'' (''cat_2'' @ ''.jpg'')) = Some 109
   \<and> trace (snd (save scenario_env (CropImageSource cat_source 2 split_into_4 ''cat_2'') ''/out'' ''.jpg''
        (Some ''/cache'') (scenario_world\<lparr>files := (files scenario_world)(''/cache/cat_2.jpg'' \<mapsto> 109)\<rparr>))) =
       [Ev_makedirs ''/cache'', Ev_rename ''/cache/cat_2.jpg'' ''/out/cat_2.jpg'']"
proof -
  let ?w = "scenario_world\<lparr>files := (files scenario_world)(''/cache/cat_2.jpg'' \<mapsto> 109)\<rparr>"
  have h: "files ?w (path_join ''/cache'' (''cat_2'' @ ''.jpg'')) = Some 109"
    by (simp add: path_join_def)
  show ?thesis
    using h C2_warm_cache_skips_cropper [OF h, of scenario_env cat_source 2 split_into_4 "''/out''"]
    by (simp add: scenario_env_def scenario_world_def path_join_def)
qed

text \<open>
  C4: \<open>CropImageSource.save\<close> without a cache directory always fails and changes no file:
  it reads the original, calls the cropper, indexes the crops, and, when all of that
  succeeds, raises \<open>TypeError\<close> while building the output path from the missing
  directory, before any write is attempted.
\<close>

theorem C4_no_cache_save_fails:
  "(\<exists>e. fst (save E (CropImageSource orig i cf nm) save_dir image_ext None w) = Inl e)
   \<and> files (snd (save E (CropImageSource orig i cf nm) save_dir image_ext None w)) = files w
   \<and> trace (snd (save E (CropImageSource orig i cf nm) save_dir image_ext None w)) =
       trace w @ Ev_fromfile (source_path orig) #
         (case fst (read E orig w) of Inl e \<Rightarrow> [] | Inr img \<Rightarrow> [Ev_cropper img])
   \<and> (\<forall>img crops crop. fst (read E orig w) = Inr img \<longrightarrow> cf img = Inr crops \<longrightarrow>
         py_index crops i = Inr crop \<longrightarrow>
         fst (save E (CropImageSource orig i cf nm) save_dir image_ext None w) = Inl TypeError)"
proof -
  obtain r where r: "fst (read E orig w) = r" by simp
  have rd: "read E orig w = (r, emit (Ev_fromfile (source_path orig)) w)"
    using read_eq [OF r refl] .
  show ?thesis
    using r by (auto simp: rd call_cropper_def split: sum.splits)
qed

theorem C4_no_cache_witness:
  "fst (read scenario_env cat_source scenario_world) = Inr 7
   \<and> split_into_4 7 = Inr [7, 8, 9, 10]
   \<and> py_index [7, 8, 9, 10 :: nat] 2 = Inr 9
   \<and> fst (save scenario_env (CropImageSource cat_source 2 split_into_4 ''cat_2'') ''/out'' ''.jpg'' None
        scenario_world) = Inl TypeError
   \<and> files (snd (save scenario_env (CropImageSource cat_source 2 split_into_4 ''cat_2'') ''/out'' ''.jpg'' None
        scenario_world)) = files scenario_world"
proof -
  have h1: "fst (read scenario_env cat_source scenario_world) = Inr 7"
    by (simp add: scenario_env_def scenario_world_def cat_source_def fromfile_def)
  have h2: "split_into_4 7 = Inr [7, 8, 9, 10]"
    by (simp add: split_into_4_def)
  have h3: "py_index [7, 8, 9, 10 :: nat] 2 = Inr 9"
    by (simp add: py_index_def)
  show ?thesis
    using h1 h2 h3
      C4_no_cache_save_fails [of scenario_env cat_source 2 split_into_4 "''cat_2''" "''/out''" "''.jpg''" scenario_world]
    by blast
qed

text \<open>
  C6: when the file at \<open>p\<close> exists and decodes to \<open>img0\<close>, \<open>read\<close> of a
  \<open>PathImageSource(p, fns)\<close> is the left-to-right pipe of the functions \<open>fns\<close> applied to
  \<open>img0\<close>; for functions that do not raise this is the plain fold, and without functions
  (no list, or the empty list) it is \<open>img0\<close> itself.
\<close>

theorem C6_path_read_is_pipeline:
  assumes "files w p = Some b" and "imdecode E b = Inr img0"
  shows "fst (read E (PathImageSource_init p fns nm) w) =
           pipeline (case fns of None \<Rightarrow> [] | Some fs \<Rightarrow> fs) img0
       \<and> fst (read E (PathImageSource_init p (Some (map (\<lambda>g. Inr \<circ> g) gs)) nm) w) =
           Inr (foldl (\<lambda>y g. g y) img0 gs)
       \<and> fst (read E (PathImageSource_init p None nm) w) = Inr img0
       \<and> fst (read E (PathImageSource_init p (Some []) nm) w) = Inr img0"
  by (simp add: PathImageSource_init_def read_path [OF assms] apply_fns_pipeline [symmetric]
        apply_fns_pure del: read.simps)

theorem C6_path_read_witness:
  "files scenario_world ''in/cat.jpg'' = Some 7
   \<and> imdecode scenario_env 7 = Inr 7
   \<and> fst (read scenario_env
        (PathImageSource_init ''in/cat.jpg'' (Some [\<lambda>x. Inr (x + 1), \<lambda>x. Inr (2 * x)]) None)
        scenario_world) = Inr 16
   \<and> fst (read scenario_env (PathImageSource_init ''in/cat.jpg'' None None) scenario_world) = Inr 7"
proof -
  have h1: "files scenario_world ''in/cat.jpg'' = Some 7"
    by (simp add: scenario_world_def)
  have h2: "imdecode scenario_env 7 = Inr 7"
    by (simp add: scenario_env_def)
  show ?thesis
    using h1 h2
      C6_path_read_is_pipeline [OF h1 h2, of "Some [\<lambda>x. Inr (x + 1), \<lambda>x. Inr (2 * x)]" None]
      C6_path_read_is_pipeline [OF h1 h2, of None None]
    by (simp add: pipeline_def pipe_step_def)
qed

text \<open>
  C7: \<open>paths2image_sources\<close> returns one \<open>PathImageSource\<close> per path, in the order of the
  paths and as many as there are; each carries the shared preprocessing chain, and its
  name is its path without the directory part and without the extension. The function
  takes no name; the constructor takes a non-empty name as it is given.
\<close>

theorem C7_paths2image_sources:
  "paths2image_sources paths fns =
     map (\<lambda>p. PathImageSource p (case fns of None \<Rightarrow> [] | Some fs \<Rightarrow> fs)
                 (fst (splitext (basename p)))) paths
   \<and> length (paths2image_sources paths fns) = length paths
   \<and> map path (paths2image_sources paths fns) = paths
   \<and> map name (paths2image_sources paths fns) = map (\<lambda>p. fst (splitext (basename p))) paths
   \<and> (\<forall>p. CHR ''/'' \<notin> set (fst (splitext (basename p)))
        \<and> (\<exists>d e. p = d @ fst (splitext (basename p)) @ e
              \<and> (d = [] \<or> last d = CHR ''/'')
              \<and> CHR ''/'' \<notin> set e
              \<and> (e = [] \<or> hd e = CHR ''.'' \<and> CHR ''.'' \<notin> set (tl e))))
   \<and> (\<forall>p n. n \<noteq> [] \<longrightarrow> name (PathImageSource_init p fns (Some n)) = n)"
proof -
  have main: "paths2image_sources paths fns =
     map (\<lambda>p. PathImageSource p (case fns of None \<Rightarrow> [] | Some fs \<Rightarrow> fs)
                 (fst (splitext (basename p)))) paths"
    by (simp add: paths2image_sources_def loop_eq)
  have stem: "CHR ''/'' \<notin> set (fst (splitext (basename p)))
        \<and> (\<exists>d e. p = d @ fst (splitext (basename p)) @ e
              \<and> (d = [] \<or> last d = CHR ''/'')
              \<and> CHR ''/'' \<notin> set e
              \<and> (e = [] \<or> hd e = CHR ''.'' \<and> CHR ''.'' \<notin> set (tl e)))" for p
  proof -
    let ?q = "basename p"
    let ?s = "fst (splitext ?q)" and ?e = "snd (splitext ?q)"
    have q: "?q = ?s @ ?e" and e: "?e = [] \<or> hd ?e = CHR ''.'' \<and> CHR ''.'' \<notin> set (tl ?e)"
      using splitext_parts [of ?q] by blast+
    have ns: "CHR ''/'' \<notin> set ?q" by (rule basename_no_sep)
    then have "CHR ''/'' \<notin> set (?s @ ?e)" using q by simp
    then have ns2: "CHR ''/'' \<notin> set ?s" "CHR ''/'' \<notin> set ?e" by auto
    let ?d = "rev (dropWhile (\<lambda>c. c \<noteq> CHR ''/'') (rev p))"
    have "rev p = takeWhile (\<lambda>c. c \<noteq> CHR ''/'') (rev p) @ dropWhile (\<lambda>c. c \<noteq> CHR ''/'') (rev p)"
      by simp
    then have p: "p = ?d @ ?q"
      unfolding basename_def by (metis rev_append rev_rev_ident)
    have d: "?d = [] \<or> last ?d = CHR ''/''"
      using hd_dropWhile [of "\<lambda>c. c \<noteq> CHR ''/''" "rev p"] by (auto simp: last_rev)
    from p q have "p = ?d @ ?s @ ?e" by simp
    with d ns2 e show ?thesis by blast
  qed
  show ?thesis
    apply (intro conjI allI)
    subgoal by (rule main)
    subgoal by (simp add: main)
    subgoal by (simp add: main comp_def)
    subgoal by (simp add: main comp_def)
    subgoal using stem by blast
    subgoal using stem by blast
    subgoal by (simp add: PathImageSource_init_def)
    done
qed

theorem C7_paths2image_sources_witness:
  "(paths2image_sources [''data/cat.jpg'', ''dog.tar.gz''] None :: nat ImageSource list) =
     [PathImageSource ''data/cat.jpg'' [] ''cat'', PathImageSource ''dog.tar.gz'' [] ''dog.tar'']
   \<and> ''x'' \<noteq> []
   \<and> name (PathImageSource_init ''a/b.png'' None (Some ''x'') :: nat ImageSource) = ''x''"
  using C7_paths2image_sources [of "[''data/cat.jpg'', ''dog.tar.gz'']" "None :: (nat \<Rightarrow> error + nat) list option"]
  by (simp add: basename_def splitext_def)

text \<open>
  C1: when the cache key file \<open><cache_dir>/<name><image_ext>\<close> does not exist (and the cache
  directory can be made, the original can be read, the cropper returns and no \<open>imwrite\<close>
  raises), \<open>CropImageSource.save\<close> reads the original once, calls the cropper once, and
  calls \<open>imwrite\<close> for every crop \<open>j\<close> of the sequence, in order, at
  \<open><cache_dir>/<name without its last underscore segment>_<j><image_ext>\<close>, before the
  move; every crop that was encoded and could be created is in the cache afterwards, the
  moved one apart. The last conjunct says that the path the code builds with \<open>split\<close> and
  \<open>join\<close> is that path.
\<close>

theorem C1_cold_cache_populates:
  assumes mk: "makedirs_err E cache_dir = None"
      and cold: "files w (path_join cache_dir (nm @ image_ext)) = None"
      and rd: "fst (read E orig w) = Inr img"
      and cf: "cf img = Inr crops"
      and nr: "\<forall>j<length crops. \<forall>e.
                 imwrite_enc E (crop_path cache_dir (drop_last_segment nm) image_ext j) (crops ! j) \<noteq> Inl e"
  shows "trace (snd (save E (CropImageSource orig i cf nm) save_dir image_ext (Some cache_dir) w)) =
           trace w @ [Ev_makedirs cache_dir, Ev_fromfile (source_path orig), Ev_cropper img] @
             map (\<lambda>(j, crop). Ev_imwrite (crop_path cache_dir (drop_last_segment nm) image_ext j) crop)
               (enumerate 0 crops) @
             [Ev_rename (path_join cache_dir (nm @ image_ext)) (path_join save_dir (nm @ image_ext))]
       \<and> cropper_calls (trace (snd (save E (CropImageSource orig i cf nm) save_dir image_ext (Some cache_dir) w))) =
           cropper_calls (trace w) + 1
       \<and> (\<forall>j<length crops. \<forall>b.
            imwrite_enc E (crop_path cache_dir (drop_last_segment nm) image_ext j) (crops ! j) = Inr (Some b) \<longrightarrow>
            creatable E (crop_path cache_dir (drop_last_segment nm) image_ext j) \<longrightarrow>
            crop_path cache_dir (drop_last_segment nm) image_ext j \<noteq> path_join cache_dir (nm @ image_ext) \<longrightarrow>
            crop_path cache_dir (drop_last_segment nm) image_ext j \<noteq> path_join save_dir (nm @ image_ext) \<longrightarrow>
            files (snd (save E (CropImageSource orig i cf nm) save_dir image_ext (Some cache_dir) w))
              (crop_path cache_dir (drop_last_segment nm) image_ext j) = Some b)
       \<and> (\<forall>j<length crops. path_join cache_dir (crop_filename nm j image_ext) =
            crop_path cache_dir (drop_last_segment nm) image_ext j)"
proof -
  let ?cached = "path_join cache_dir (nm @ image_ext)" and ?target = "path_join save_dir (nm @ image_ext)"
  let ?P = "crop_path cache_dir (drop_last_segment nm) image_ext"
  obtain w4 where sv: "save E (CropImageSource orig i cf nm) save_dir image_ext (Some cache_dir) w =
             rename E ?cached ?target w4"
    and tr: "trace w4 = trace w @ [Ev_makedirs cache_dir, Ev_fromfile (source_path orig), Ev_cropper img] @
               map (\<lambda>(j, crop). Ev_imwrite (?P j) crop) (enumerate 0 crops)"
    and fl: "\<forall>j<length crops. \<forall>b. imwrite_enc E (?P j) (crops ! j) = Inr (Some b) \<longrightarrow>
              creatable E (?P j) \<longrightarrow> files w4 (?P j) = Some b"
    using save_cold_populated [where cf = cf and i = i and save_dir = save_dir, OF mk cold rd cf nr] by blast
  have t: "trace (snd (save E (CropImageSource orig i cf nm) save_dir image_ext (Some cache_dir) w)) =
           trace w @ [Ev_makedirs cache_dir, Ev_fromfile (source_path orig), Ev_cropper img] @
             map (\<lambda>(j, crop). Ev_imwrite (?P j) crop) (enumerate 0 crops) @ [Ev_rename ?cached ?target]"
    by (simp only: sv rename_trace tr) simp
  have c: "cropper_calls (trace (snd (save E (CropImageSource orig i cf nm) save_dir image_ext (Some cache_dir) w))) =
           cropper_calls (trace w) + 1"
    by (simp only: t) (simp add: cropper_calls_imwrites)
  have f: "\<forall>j<length crops. \<forall>b. imwrite_enc E (?P j) (crops ! j) = Inr (Some b) \<longrightarrow> creatable E (?P j) \<longrightarrow>
            ?P j \<noteq> ?cached \<longrightarrow> ?P j \<noteq> ?target \<longrightarrow>
            files (snd (save E (CropImageSource orig i cf nm) save_dir image_ext (Some cache_dir) w)) (?P j) = Some b"
    using fl by (simp only: sv) (simp add: rename_files_other)
  have n: "\<forall>j<length crops. path_join cache_dir (crop_filename nm j image_ext) = ?P j"
    by (simp add: crop_target_eq)
  from t c f n show ?thesis by blast
qed

theorem C1_cold_cache_witness:
  "trace (snd (save scenario_env (CropImageSource cat_source 2 split_into_4 ''cat_2'') ''/out'' ''.jpg''
      (Some ''/cache'') scenario_world)) =
     [Ev_makedirs ''/cache'', Ev_fromfile ''in/cat.jpg'', Ev_cropper 7,
      Ev_imwrite ''/cache/cat_0.jpg'' 7, Ev_imwrite ''/cache/cat_1.jpg'' 8,
      Ev_imwrite ''/cache/cat_2.jpg'' 9, Ev_imwrite ''/cache/cat_3.jpg'' 10,
      Ev_rename ''/cache/cat_2.jpg'' ''/out/cat_2.jpg'']
   \<and> files (snd (save scenario_env (CropImageSource cat_source 2 split_into_4 ''cat_2'') ''/out'' ''.jpg''
      (Some ''/cache'') scenario_world)) ''/cache/cat_3.jpg'' = Some 110"
proof -
  have h1: "makedirs_err scenario_env ''/cache'' = None" by (simp add: scenario_env_def)
  have h2: "files scenario_world (path_join ''/cache'' (''cat_2'' @ ''.jpg'')) = None"
    by (simp add: scenario_world_def path_join_def)
  have h4: "split_into_4 7 = Inr [7, 8, 9, 10]" by (simp add: split_into_4_def)
  have h5: "\<forall>j<length [7, 8, 9, 10 :: nat]. \<forall>e.
      imwrite_enc scenario_env (crop_path ''/cache'' (drop_last_segment ''cat_2'') ''.jpg'' j)
        ([7, 8, 9, 10] ! j) \<noteq> Inl e"
    by (simp add: scenario_no_raise)
  note th = C1_cold_cache_populates [where cf = split_into_4 and i = 2 and save_dir = "''/out''", OF h1 h2 scenario_read h4 h5]
  have p: "crop_path ''/cache'' (drop_last_segment ''cat_2'') ''.jpg'' 0 = ''/cache/cat_0.jpg''"
    "crop_path ''/cache'' (drop_last_segment ''cat_2'') ''.jpg'' (Suc 0) = ''/cache/cat_1.jpg''"
    "crop_path ''/cache'' (drop_last_segment ''cat_2'') ''.jpg'' (Suc (Suc 0)) = ''/cache/cat_2.jpg''"
    "crop_path ''/cache'' (drop_last_segment ''cat_2'') ''.jpg'' (Suc (Suc (Suc 0))) = ''/cache/cat_3.jpg''"
    "crop_path ''/cache'' (drop_last_segment ''cat_2'') ''.jpg'' 3 = ''/cache/cat_3.jpg''"
    by (simp_all add: crop_path_def drop_last_segment_def path_join_def str_nat.simps digit_char_def)
  have j: "path_join ''/cache'' ''cat_2.jpg'' = ''/cache/cat_2.jpg''"
    "path_join ''/out'' ''cat_2.jpg'' = ''/out/cat_2.jpg''"
    by (simp_all add: path_join_def)
  have e3: "imwrite_enc scenario_env ''/cache/cat_3.jpg'' ([7, 8, 9, 10] ! 3) = Inr (Some 110)"
    "creatable scenario_env ''/cache/cat_3.jpg''"
    by (simp_all add: scenario_env_def)
  from th have t: "trace (snd (save scenario_env (CropImageSource cat_source 2 split_into_4 ''cat_2'') ''/out'' ''.jpg''
      (Some ''/cache'') scenario_world)) =
     [Ev_makedirs ''/cache'', Ev_fromfile ''in/cat.jpg'', Ev_cropper 7,
      Ev_imwrite ''/cache/cat_0.jpg'' 7, Ev_imwrite ''/cache/cat_1.jpg'' 8,
      Ev_imwrite ''/cache/cat_2.jpg'' 9, Ev_imwrite ''/cache/cat_3.jpg'' 10,
      Ev_rename ''/cache/cat_2.jpg'' ''/out/cat_2.jpg'']"
    by (simp add: p j scenario_world_def cat_source_def del: save.simps)
  from th have "\<forall>j<length [7, 8, 9, 10 :: nat]. \<forall>b.
      imwrite_enc scenario_env (crop_path ''/cache'' (drop_last_segment ''cat_2'') ''.jpg'' j) ([7, 8, 9, 10] ! j) = Inr (Some b) \<longrightarrow>
      creatable scenario_env (crop_path ''/cache'' (drop_last_segment ''cat_2'') ''.jpg'' j) \<longrightarrow>
      crop_path ''/cache'' (drop_last_segment ''cat_2'') ''.jpg'' j \<noteq> path_join ''/cache'' (''cat_2'' @ ''.jpg'') \<longrightarrow>
      crop_path ''/cache'' (drop_last_segment ''cat_2'') ''.jpg'' j \<noteq> path_join ''/out'' (''cat_2'' @ ''.jpg'') \<longrightarrow>
      files (snd (save scenario_env (CropImageSource cat_source 2 split_into_4 ''cat_2'') ''/out'' ''.jpg''
        (Some ''/cache'') scenario_world)) (crop_path ''/cache'' (drop_last_segment ''cat_2'') ''.jpg'' j) = Some b"
    by blast
  from this [rule_format, of 3 110] have f: "files (snd (save scenario_env (CropImageSource cat_source 2 split_into_4 ''cat_2'') ''/out'' ''.jpg''
        (Some ''/cache'') scenario_world)) ''/cache/cat_3.jpg'' = Some 110"
    using e3 by (simp add: p j del: save.simps)
  from t f show ?thesis by blast
qed

text \<open>
  C10: with a cold cache, \<open>CropImageSource.save\<close> returns normally only if the name is
  \<open><base>_<k>\<close> in the sense that it is its own first part, an underscore and the decimal
  numeral of a position \<open>k\<close> below the number of crops. When the name is not of that form
  (and everything before the move works), the populate step does not create the cache key
  file, the move fails with \<open>FileNotFoundError\<close>, and the crops that were written stay in
  the cache directory.
\<close>

theorem C10_cold_save_needs_indexed_name:
  assumes cold: "files w (path_join cache_dir (nm @ image_ext)) = None"
  shows "(fst (save E (CropImageSource orig i cf nm) save_dir image_ext (Some cache_dir) w) = Inr () \<longrightarrow>
            (\<exists>img crops k. fst (read E orig w) = Inr img \<and> cf img = Inr crops \<and> k < length crops \<and>
               nm = drop_last_segment nm @ ''_'' @ str_nat k))
       \<and> (\<forall>img crops.
            makedirs_err E cache_dir = None \<longrightarrow> fst (read E orig w) = Inr img \<longrightarrow> cf img = Inr crops \<longrightarrow>
            (\<forall>j<length crops. \<forall>e.
               imwrite_enc E (crop_path cache_dir (drop_last_segment nm) image_ext j) (crops ! j) \<noteq> Inl e) \<longrightarrow>
            (\<forall>k<length crops. nm \<noteq> drop_last_segment nm @ ''_'' @ str_nat k) \<longrightarrow>
            fst (save E (CropImageSource orig i cf nm) save_dir image_ext (Some cache_dir) w) = Inl FileNotFoundError
            \<and> files (snd (save E (CropImageSource orig i cf nm) save_dir image_ext (Some cache_dir) w))
                (path_join cache_dir (nm @ image_ext)) = None
            \<and> (\<forall>j<length crops. \<forall>b.
                 imwrite_enc E (crop_path cache_dir (drop_last_segment nm) image_ext j) (crops ! j) = Inr (Some b) \<longrightarrow>
                 creatable E (crop_path cache_dir (drop_last_segment nm) image_ext j) \<longrightarrow>
                 files (snd (save E (CropImageSource orig i cf nm) save_dir image_ext (Some cache_dir) w))
                   (crop_path cache_dir (drop_last_segment nm) image_ext j) = Some b))"
proof (intro conjI impI allI)
  let ?cached = "path_join cache_dir (nm @ image_ext)" and ?target = "path_join save_dir (nm @ image_ext)"
  let ?P = "crop_path cache_dir (drop_last_segment nm) image_ext"
  let ?sv = "save E (CropImageSource orig i cf nm) save_dir image_ext (Some cache_dir) w"
  {
    assume ok: "fst ?sv = Inr ()"
    note sc = save_cold [OF cold, of E orig i cf save_dir]
    have mk: "makedirs_err E cache_dir = None"
      using ok by (cases "makedirs_err E cache_dir") (simp_all add: sc del: save.simps)
    obtain img where rd: "fst (read E orig w) = Inr img"
      using ok by (cases "fst (read E orig w)") (simp_all add: sc mk del: save.simps)
    obtain crops where cf: "cf img = Inr crops"
      using ok by (cases "cf img") (simp_all add: sc mk rd del: save.simps)
    let ?w3 = "emit (Ev_cropper img)
                 (emit (Ev_fromfile (source_path orig)) (emit (Ev_makedirs cache_dir) w))"
    obtain r w4 where wc: "write_crops E cache_dir nm image_ext 0 crops ?w3 = (r, w4)"
      by (cases "write_crops E cache_dir nm image_ext 0 crops ?w3")
    have sv: "?sv = (case r of Inl e \<Rightarrow> (Inl e, w4) | Inr u \<Rightarrow> rename E ?cached ?target w4)"
      by (simp add: sc mk rd cf wc del: save.simps)
    have "fst (rename E ?cached ?target w4) = Inr ()"
      using ok by (cases r) (simp_all add: sv del: save.simps)
    then have "files w4 ?cached \<noteq> None" by (rule rename_Inr_src)
    then have "files (snd (write_crops E cache_dir nm image_ext 0 crops ?w3)) ?cached \<noteq> None"
      by (simp add: wc)
    then have "files ?w3 ?cached \<noteq> None \<or> (\<exists>j<length crops. ?cached = ?P (0 + j))"
      by (rule write_crops_creates_only)
    then obtain k where k: "k < length crops" "?cached = ?P k"
      using cold by auto
    from k(2) have "nm = drop_last_segment nm @ ''_'' @ str_nat k"
      by (rule cache_key_is_crop_path)
    with rd cf k(1)
    show "\<exists>img crops k. fst (read E orig w) = Inr img \<and> cf img = Inr crops \<and> k < length crops \<and>
               nm = drop_last_segment nm @ ''_'' @ str_nat k"
      by blast
  }
  fix img crops
  assume mk: "makedirs_err E cache_dir = None" and rd: "fst (read E orig w) = Inr img"
    and cf: "cf img = Inr crops"
    and nr: "\<forall>j<length crops. \<forall>e. imwrite_enc E (?P j) (crops ! j) \<noteq> Inl e"
    and bad: "\<forall>k<length crops. nm \<noteq> drop_last_segment nm @ ''_'' @ str_nat k"
  obtain w4 where sv: "?sv = rename E ?cached ?target w4"
    and fl: "\<forall>j<length crops. \<forall>b. imwrite_enc E (?P j) (crops ! j) = Inr (Some b) \<longrightarrow>
              creatable E (?P j) \<longrightarrow> files w4 (?P j) = Some b"
    and fr: "\<forall>q. (\<forall>j<length crops. q \<noteq> ?P j) \<longrightarrow> files w4 q = files w q"
    using save_cold_populated [where cf = cf and i = i and save_dir = save_dir, OF mk cold rd cf nr] by blast
  have "\<forall>j<length crops. ?cached \<noteq> ?P j"
    using bad cache_key_is_crop_path [of cache_dir nm image_ext] by blast
  with fr cold have missing: "files w4 ?cached = None" by simp
  have res: "?sv = (Inl FileNotFoundError, emit (Ev_rename ?cached ?target) w4)"
    by (simp only: sv rename_missing [OF missing])
  show "fst ?sv = Inl FileNotFoundError" by (simp add: res del: save.simps)
  show "files (snd ?sv) ?cached = None" by (simp add: res missing del: save.simps)
  fix j b
  assume "j < length crops" "imwrite_enc E (?P j) (crops ! j) = Inr (Some b)" "creatable E (?P j)"
  with fl show "files (snd ?sv) (?P j) = Some b" by (simp add: res del: save.simps)
qed

theorem C10_cold_save_witness:
  "fst (save scenario_env (CropImageSource cat_source 0 split_into_4 ''cat'') ''/out'' ''.jpg''
      (Some ''/cache'') scenario_world) = Inl FileNotFoundError
   \<and> files (snd (save scenario_env (CropImageSource cat_source 0 split_into_4 ''cat'') ''/out'' ''.jpg''
      (Some ''/cache'') scenario_world)) ''/cache/cat.jpg'' = None
   \<and> files (snd (save scenario_env (CropImageSource cat_source 0 split_into_4 ''cat'') ''/out'' ''.jpg''
      (Some ''/cache'') scenario_world)) ''/cache/_0.jpg'' = Some 107
   \<and> files (snd (save scenario_env (CropImageSource cat_source 0 split_into_4 ''cat'') ''/out'' ''.jpg''
      (Some ''/cache'') scenario_world)) ''/cache/_3.jpg'' = Some 110"
proof -
  let ?sv = "save scenario_env (CropImageSource cat_source 0 split_into_4 ''cat'') ''/out'' ''.jpg''
      (Some ''/cache'') scenario_world"
  have cold: "files scenario_world (path_join ''/cache'' (''cat'' @ ''.jpg'')) = None"
    by (simp add: scenario_world_def path_join_def)
  have mk: "makedirs_err scenario_env ''/cache'' = None" by (simp add: scenario_env_def)
  have cf: "split_into_4 7 = Inr [7, 8, 9, 10]" by (simp add: split_into_4_def)
  have nr: "\<forall>j<length [7, 8, 9, 10 :: nat]. \<forall>e.
      imwrite_enc scenario_env (crop_path ''/cache'' (drop_last_segment ''cat'') ''.jpg'' j)
        ([7, 8, 9, 10] ! j) \<noteq> Inl e"
    by (simp add: scenario_no_raise)
  have bad: "\<forall>k<length [7, 8, 9, 10 :: nat]. ''cat'' \<noteq> drop_last_segment ''cat'' @ ''_'' @ str_nat k"
    by (simp add: drop_last_segment_def)
  note th = C10_cold_save_needs_indexed_name [where cf = split_into_4 and i = 0 and save_dir = "''/out''" and E = scenario_env
      and orig = cat_source, OF cold, THEN conjunct2, rule_format, OF mk scenario_read cf nr [rule_format] bad [rule_format]]
  have p: "crop_path ''/cache'' (drop_last_segment ''cat'') ''.jpg'' 0 = ''/cache/_0.jpg''"
    "crop_path ''/cache'' (drop_last_segment ''cat'') ''.jpg'' 3 = ''/cache/_3.jpg''"
    "path_join ''/cache'' (''cat'' @ ''.jpg'') = ''/cache/cat.jpg''"
    by (simp_all add: crop_path_def drop_last_segment_def path_join_def str_nat.simps digit_char_def)
  have e: "imwrite_enc scenario_env ''/cache/_0.jpg'' ([7, 8, 9, 10] ! 0) = Inr (Some 107)"
    "imwrite_enc scenario_env ''/cache/_3.jpg'' ([7, 8, 9, 10] ! 3) = Inr (Some 110)"
    "creatable scenario_env ''/cache/_0.jpg''" "creatable scenario_env ''/cache/_3.jpg''"
    by (simp_all add: scenario_env_def)
  have a: "fst ?sv = Inl FileNotFoundError" using th by blast
  have b: "files (snd ?sv) ''/cache/cat.jpg'' = None" using th p(3) by metis
  have c: "\<forall>j<length [7, 8, 9, 10 :: nat]. \<forall>b.
      imwrite_enc scenario_env (crop_path ''/cache'' (drop_last_segment ''cat'') ''.jpg'' j) ([7, 8, 9, 10] ! j) = Inr (Some b) \<longrightarrow>
      creatable scenario_env (crop_path ''/cache'' (drop_last_segment ''cat'') ''.jpg'' j) \<longrightarrow>
      files (snd ?sv) (crop_path ''/cache'' (drop_last_segment ''cat'') ''.jpg'' j) = Some b"
    using th by blast
  have c0: "files (snd ?sv) ''/cache/_0.jpg'' = Some 107"
    using c [rule_format, of 0 107] e by (simp add: p del: save.simps)
  have c3: "files (snd ?sv) ''/cache/_3.jpg'' = Some 110"
    using c [rule_format, of 3 110] e by (simp add: p del: save.simps)
  from a b c0 c3 show ?thesis by blast
qed




text \<open>
  C8, as stated, fails: \<open>_write\<close> binds the success flag of \<open>imencode\<close> and never reads it.
  With a codec that reports failure through the flag, \<open>PathImageSource.save\<close> returns
  normally and has written the buffer of the failed encode to \<open>/out/cat.jpg\<close>.
\<close>

theorem C8_failed_encode_counterexample:
  "imencode failing_encode_env ''.jpg'' 7 = Inr (False, 0)
   \<and> save failing_encode_env cat_source ''/out'' ''.jpg'' None scenario_world =
       (Inr (), \<lparr>files = [''in/cat.jpg'' \<mapsto> 7, ''/out/cat.jpg'' \<mapsto> 0],
                 trace = [Ev_fromfile ''in/cat.jpg'', Ev_tofile ''/out/cat.jpg'' 0]\<rparr>)"
  by (simp add: scenario_eval failing_encode_env_def write_img_def tofile_def basename_def splitext_def)

text \<open>
  C8, amended: every error that a step of \<open>read\<close> or \<open>save\<close> raises is the result of the
  call, and no later step is performed. For \<open>read\<close> these are a missing file, a decode and
  a preprocessing function that raises, and \<open>CropImageSource.read\<close> is the \<open>read\<close> of its
  original. \<open>PathImageSource.save\<close> returns the error of \<open>read\<close>, of an \<open>imencode\<close> that
  raises, and the \<open>OSError\<close> of a file that cannot be opened or of a write that fails after
  the open (the file then holds the part that was written); otherwise it returns normally
  after writing exactly one file, \<open><target_dir>/<name><image_ext>\<close>, with the buffer
  \<open>imencode\<close> returned, whatever its flag. \<open>CropImageSource.save\<close> without a cache
  directory returns the error of \<open>read\<close>, of the cropper and of the indexing; with a cache
  directory, the error of \<open>makedirs\<close>, of \<open>read\<close>, of the cropper, of the first \<open>imwrite\<close>
  that raises (no crop after it is written, nothing is moved), and of the move, after a
  populate as well as when the entry was found.
\<close>

theorem C8_errors_surface:
  "(\<forall>e. fst (read E (PathImageSource p fns nm) w) = Inl e \<longrightarrow>
      save E (PathImageSource p fns nm) save_dir image_ext cache_dir w = (Inl e, emit (Ev_fromfile p) w))
   \<and> (\<forall>img e. fst (read E (PathImageSource p fns nm) w) = Inr img \<longrightarrow>
        imencode E (snd (splitext (basename (path_join save_dir (nm @ image_ext))))) img = Inl e \<longrightarrow>
        save E (PathImageSource p fns nm) save_dir image_ext cache_dir w = (Inl e, emit (Ev_fromfile p) w))
   \<and> (\<forall>img ok buf. fst (read E (PathImageSource p fns nm) w) = Inr img \<longrightarrow>
        imencode E (snd (splitext (basename (path_join save_dir (nm @ image_ext))))) img = Inr (ok, buf) \<longrightarrow>
        \<not> creatable E (path_join save_dir (nm @ image_ext)) \<longrightarrow>
        save E (PathImageSource p fns nm) save_dir image_ext cache_dir w =
          (Inl OSError, emit (Ev_tofile (path_join save_dir (nm @ image_ext)) buf) (emit (Ev_fromfile p) w)))
   \<and> (\<forall>img ok buf part. fst (read E (PathImageSource p fns nm) w) = Inr img \<longrightarrow>
        imencode E (snd (splitext (basename (path_join save_dir (nm @ image_ext))))) img = Inr (ok, buf) \<longrightarrow>
        creatable E (path_join save_dir (nm @ image_ext)) \<longrightarrow>
        write_fault E (path_join save_dir (nm @ image_ext)) buf = Some part \<longrightarrow>
        save E (PathImageSource p fns nm) save_dir image_ext cache_dir w =
          (Inl OSError, (emit (Ev_tofile (path_join save_dir (nm @ image_ext)) buf) (emit (Ev_fromfile p) w))
                          \<lparr>files := (files w)(path_join save_dir (nm @ image_ext) \<mapsto> part)\<rparr>))
   \<and> (\<forall>img ok buf. fst (read E (PathImageSource p fns nm) w) = Inr img \<longrightarrow>
        imencode E (snd (splitext (basename (path_join save_dir (nm @ image_ext))))) img = Inr (ok, buf) \<longrightarrow>
        creatable E (path_join save_dir (nm @ image_ext)) \<longrightarrow>
        write_fault E (path_join save_dir (nm @ image_ext)) buf = None \<longrightarrow>
        save E (PathImageSource p fns nm) save_dir image_ext cache_dir w =
          (Inr (), (emit (Ev_tofile (path_join save_dir (nm @ image_ext)) buf) (emit (Ev_fromfile p) w))
                     \<lparr>files := (files w)(path_join save_dir (nm @ image_ext) \<mapsto> buf)\<rparr>))
   \<and> (files w p = None \<longrightarrow>
        read E (PathImageSource p fns nm) w = (Inl FileNotFoundError, emit (Ev_fromfile p) w))
   \<and> (\<forall>b e. files w p = Some b \<longrightarrow> imdecode E b = Inl e \<longrightarrow>
        read E (PathImageSource p fns nm) w = (Inl e, emit (Ev_fromfile p) w))
   \<and> (\<forall>b img0 pre fn post y e. files w p = Some b \<longrightarrow> imdecode E b = Inr img0 \<longrightarrow>
        fns = pre @ fn # post \<longrightarrow> apply_fns pre img0 = Inr y \<longrightarrow> fn y = Inl e \<longrightarrow>
        read E (PathImageSource p fns nm) w = (Inl e, emit (Ev_fromfile p) w))
   \<and> read E (CropImageSource orig i cf cnm) w = read E orig w
   \<and> ((\<forall>e. fst (read E orig w) = Inl e \<longrightarrow>
          save E (CropImageSource orig i cf cnm) save_dir image_ext None w =
            (Inl e, emit (Ev_fromfile (source_path orig)) w))
      \<and> (\<forall>img e. fst (read E orig w) = Inr img \<longrightarrow> cf img = Inl e \<longrightarrow>
          save E (CropImageSource orig i cf cnm) save_dir image_ext None w =
            (Inl e, emit (Ev_cropper img) (emit (Ev_fromfile (source_path orig)) w)))
      \<and> (\<forall>img crops e. fst (read E orig w) = Inr img \<longrightarrow> cf img = Inr crops \<longrightarrow>
          py_index crops i = Inl e \<longrightarrow>
          save E (CropImageSource orig i cf cnm) save_dir image_ext None w =
            (Inl e, emit (Ev_cropper img) (emit (Ev_fromfile (source_path orig)) w))))
   \<and> (\<forall>e. makedirs_err E c = Some e \<longrightarrow>
        save E (CropImageSource orig i cf cnm) save_dir image_ext (Some c) w = (Inl e, emit (Ev_makedirs c) w))
   \<and> (files w (path_join c (cnm @ image_ext)) = None \<longrightarrow> makedirs_err E c = None \<longrightarrow>
        (\<forall>e. fst (read E orig w) = Inl e \<longrightarrow>
           save E (CropImageSource orig i cf cnm) save_dir image_ext (Some c) w =
             (Inl e, emit (Ev_fromfile (source_path orig)) (emit (Ev_makedirs c) w)))
        \<and> (\<forall>img e. fst (read E orig w) = Inr img \<longrightarrow> cf img = Inl e \<longrightarrow>
             save E (CropImageSource orig i cf cnm) save_dir image_ext (Some c) w =
               (Inl e, emit (Ev_cropper img) (emit (Ev_fromfile (source_path orig)) (emit (Ev_makedirs c) w))))
        \<and> (\<forall>img crops j e. fst (read E orig w) = Inr img \<longrightarrow> cf img = Inr crops \<longrightarrow> j < length crops \<longrightarrow>
             (\<forall>k<j. \<forall>e'. imwrite_enc E (crop_path c (drop_last_segment cnm) image_ext k) (crops ! k) \<noteq> Inl e') \<longrightarrow>
             imwrite_enc E (crop_path c (drop_last_segment cnm) image_ext j) (crops ! j) = Inl e \<longrightarrow>
             fst (save E (CropImageSource orig i cf cnm) save_dir image_ext (Some c) w) = Inl e
             \<and> trace (snd (save E (CropImageSource orig i cf cnm) save_dir image_ext (Some c) w)) =
                 trace w @ [Ev_makedirs c, Ev_fromfile (source_path orig), Ev_cropper img] @
                   map (\<lambda>(k, crop). Ev_imwrite (crop_path c (drop_last_segment cnm) image_ext k) crop)
                     (take (Suc j) (enumerate 0 crops)))
        \<and> (\<forall>img crops w4. fst (read E orig w) = Inr img \<longrightarrow> cf img = Inr crops \<longrightarrow>
             write_crops E c cnm image_ext 0 crops
               (emit (Ev_cropper img) (emit (Ev_fromfile (source_path orig)) (emit (Ev_makedirs c) w))) =
               (Inr (), w4) \<longrightarrow>
             (files w4 (path_join c (cnm @ image_ext)) = None \<longrightarrow>
                save E (CropImageSource orig i cf cnm) save_dir image_ext (Some c) w =
                  (Inl FileNotFoundError,
                   emit (Ev_rename (path_join c (cnm @ image_ext)) (path_join save_dir (cnm @ image_ext))) w4))
             \<and> (files w4 (path_join c (cnm @ image_ext)) \<noteq> None \<longrightarrow>
                  \<not> creatable E (path_join save_dir (cnm @ image_ext)) \<longrightarrow>
                  save E (CropImageSource orig i cf cnm) save_dir image_ext (Some c) w =
                    (Inl OSError,
                     emit (Ev_rename (path_join c (cnm @ image_ext)) (path_join save_dir (cnm @ image_ext))) w4))))
   \<and> (\<forall>b. files w (path_join c (cnm @ image_ext)) = Some b \<longrightarrow> makedirs_err E c = None \<longrightarrow>
        \<not> creatable E (path_join save_dir (cnm @ image_ext)) \<longrightarrow>
        save E (CropImageSource orig i cf cnm) save_dir image_ext (Some c) w =
          (Inl OSError, emit (Ev_rename (path_join c (cnm @ image_ext)) (path_join save_dir (cnm @ image_ext)))
                          (emit (Ev_makedirs c) w)))"
proof -
  note sp = save_path_cases [of E p fns nm save_dir image_ext cache_dir w]
  have p1: "\<forall>e. fst (read E (PathImageSource p fns nm) w) = Inl e \<longrightarrow>
      save E (PathImageSource p fns nm) save_dir image_ext cache_dir w = (Inl e, emit (Ev_fromfile p) w)"
    by (simp add: sp del: save.simps read.simps)
  have p2: "\<forall>img e. fst (read E (PathImageSource p fns nm) w) = Inr img \<longrightarrow>
        imencode E (snd (splitext (basename (path_join save_dir (nm @ image_ext))))) img = Inl e \<longrightarrow>
        save E (PathImageSource p fns nm) save_dir image_ext cache_dir w = (Inl e, emit (Ev_fromfile p) w)"
    by (simp add: sp del: save.simps read.simps)
  have p3: "\<forall>img ok buf. fst (read E (PathImageSource p fns nm) w) = Inr img \<longrightarrow>
        imencode E (snd (splitext (basename (path_join save_dir (nm @ image_ext))))) img = Inr (ok, buf) \<longrightarrow>
        \<not> creatable E (path_join save_dir (nm @ image_ext)) \<longrightarrow>
        save E (PathImageSource p fns nm) save_dir image_ext cache_dir w =
          (Inl OSError, emit (Ev_tofile (path_join save_dir (nm @ image_ext)) buf) (emit (Ev_fromfile p) w))"
    by (simp add: sp del: save.simps read.simps)
  have p3b: "\<forall>img ok buf part. fst (read E (PathImageSource p fns nm) w) = Inr img \<longrightarrow>
        imencode E (snd (splitext (basename (path_join save_dir (nm @ image_ext))))) img = Inr (ok, buf) \<longrightarrow>
        creatable E (path_join save_dir (nm @ image_ext)) \<longrightarrow>
        write_fault E (path_join save_dir (nm @ image_ext)) buf = Some part \<longrightarrow>
        save E (PathImageSource p fns nm) save_dir image_ext cache_dir w =
          (Inl OSError, (emit (Ev_tofile (path_join save_dir (nm @ image_ext)) buf) (emit (Ev_fromfile p) w))
                          \<lparr>files := (files w)(path_join save_dir (nm @ image_ext) \<mapsto> part)\<rparr>)"
    by (simp add: sp del: save.simps read.simps)
  have p4: "\<forall>img ok buf. fst (read E (PathImageSource p fns nm) w) = Inr img \<longrightarrow>
        imencode E (snd (splitext (basename (path_join save_dir (nm @ image_ext))))) img = Inr (ok, buf) \<longrightarrow>
        creatable E (path_join save_dir (nm @ image_ext)) \<longrightarrow>
        write_fault E (path_join save_dir (nm @ image_ext)) buf = None \<longrightarrow>
        save E (PathImageSource p fns nm) save_dir image_ext cache_dir w =
          (Inr (), (emit (Ev_tofile (path_join save_dir (nm @ image_ext)) buf) (emit (Ev_fromfile p) w))
                     \<lparr>files := (files w)(path_join save_dir (nm @ image_ext) \<mapsto> buf)\<rparr>)"
    by (simp add: sp del: save.simps read.simps)
  have r1: "files w p = None \<longrightarrow>
        read E (PathImageSource p fns nm) w = (Inl FileNotFoundError, emit (Ev_fromfile p) w)"
    by (simp add: read_path_cases del: read.simps)
  have r2: "\<forall>b e. files w p = Some b \<longrightarrow> imdecode E b = Inl e \<longrightarrow>
        read E (PathImageSource p fns nm) w = (Inl e, emit (Ev_fromfile p) w)"
    by (simp add: read_path_cases del: read.simps)
  have r3: "\<forall>b img0 pre fn post y e. files w p = Some b \<longrightarrow> imdecode E b = Inr img0 \<longrightarrow>
        fns = pre @ fn # post \<longrightarrow> apply_fns pre img0 = Inr y \<longrightarrow> fn y = Inl e \<longrightarrow>
        read E (PathImageSource p fns nm) w = (Inl e, emit (Ev_fromfile p) w)"
    by (simp add: read_path_cases apply_fns_raise del: read.simps)
  have rc: "read E (CropImageSource orig i cf cnm) w = read E orig w"
    by simp
  note nc = save_no_cache_cases [of E orig i cf cnm save_dir image_ext w]
  have n: "(\<forall>e. fst (read E orig w) = Inl e \<longrightarrow>
          save E (CropImageSource orig i cf cnm) save_dir image_ext None w =
            (Inl e, emit (Ev_fromfile (source_path orig)) w))
      \<and> (\<forall>img e. fst (read E orig w) = Inr img \<longrightarrow> cf img = Inl e \<longrightarrow>
          save E (CropImageSource orig i cf cnm) save_dir image_ext None w =
            (Inl e, emit (Ev_cropper img) (emit (Ev_fromfile (source_path orig)) w)))
      \<and> (\<forall>img crops e. fst (read E orig w) = Inr img \<longrightarrow> cf img = Inr crops \<longrightarrow>
          py_index crops i = Inl e \<longrightarrow>
          save E (CropImageSource orig i cf cnm) save_dir image_ext None w =
            (Inl e, emit (Ev_cropper img) (emit (Ev_fromfile (source_path orig)) w)))"
    by (simp add: nc del: save.simps)
  have c1: "\<forall>e. makedirs_err E c = Some e \<longrightarrow>
        save E (CropImageSource orig i cf cnm) save_dir image_ext (Some c) w = (Inl e, emit (Ev_makedirs c) w)"
    by (simp add: save_makedirs_fails del: save.simps)
  have c2: "files w (path_join c (cnm @ image_ext)) = None \<longrightarrow> makedirs_err E c = None \<longrightarrow>
        (\<forall>e. fst (read E orig w) = Inl e \<longrightarrow>
           save E (CropImageSource orig i cf cnm) save_dir image_ext (Some c) w =
             (Inl e, emit (Ev_fromfile (source_path orig)) (emit (Ev_makedirs c) w)))
        \<and> (\<forall>img e. fst (read E orig w) = Inr img \<longrightarrow> cf img = Inl e \<longrightarrow>
             save E (CropImageSource orig i cf cnm) save_dir image_ext (Some c) w =
               (Inl e, emit (Ev_cropper img) (emit (Ev_fromfile (source_path orig)) (emit (Ev_makedirs c) w))))
        \<and> (\<forall>img crops j e. fst (read E orig w) = Inr img \<longrightarrow> cf img = Inr crops \<longrightarrow> j < length crops \<longrightarrow>
             (\<forall>k<j. \<forall>e'. imwrite_enc E (crop_path c (drop_last_segment cnm) image_ext k) (crops ! k) \<noteq> Inl e') \<longrightarrow>
             imwrite_enc E (crop_path c (drop_last_segment cnm) image_ext j) (crops ! j) = Inl e \<longrightarrow>
             fst (save E (CropImageSource orig i cf cnm) save_dir image_ext (Some c) w) = Inl e
             \<and> trace (snd (save E (CropImageSource orig i cf cnm) save_dir image_ext (Some c) w)) =
                 trace w @ [Ev_makedirs c, Ev_fromfile (source_path orig), Ev_cropper img] @
                   map (\<lambda>(k, crop). Ev_imwrite (crop_path c (drop_last_segment cnm) image_ext k) crop)
                     (take (Suc j) (enumerate 0 crops)))
        \<and> (\<forall>img crops w4. fst (read E orig w) = Inr img \<longrightarrow> cf img = Inr crops \<longrightarrow>
             write_crops E c cnm image_ext 0 crops
               (emit (Ev_cropper img) (emit (Ev_fromfile (source_path orig)) (emit (Ev_makedirs c) w))) =
               (Inr (), w4) \<longrightarrow>
             (files w4 (path_join c (cnm @ image_ext)) = None \<longrightarrow>
                save E (CropImageSource orig i cf cnm) save_dir image_ext (Some c) w =
                  (Inl FileNotFoundError,
                   emit (Ev_rename (path_join c (cnm @ image_ext)) (path_join save_dir (cnm @ image_ext))) w4))
             \<and> (files w4 (path_join c (cnm @ image_ext)) \<noteq> None \<longrightarrow>
                  \<not> creatable E (path_join save_dir (cnm @ image_ext)) \<longrightarrow>
                  save E (CropImageSource orig i cf cnm) save_dir image_ext (Some c) w =
                    (Inl OSError,
                     emit (Ev_rename (path_join c (cnm @ image_ext)) (path_join save_dir (cnm @ image_ext))) w4)))"
  proof (intro impI conjI allI)
    assume cold: "files w (path_join c (cnm @ image_ext)) = None" and mk: "makedirs_err E c = None"
    note sc = save_cold [OF cold, of E orig i cf save_dir]
    {
      fix e assume "fst (read E orig w) = Inl e"
      then show "save E (CropImageSource orig i cf cnm) save_dir image_ext (Some c) w =
             (Inl e, emit (Ev_fromfile (source_path orig)) (emit (Ev_makedirs c) w))"
        by (simp add: sc mk del: save.simps)
    }
    {
      fix img e assume "fst (read E orig w) = Inr img" "cf img = Inl e"
      then show "save E (CropImageSource orig i cf cnm) save_dir image_ext (Some c) w =
               (Inl e, emit (Ev_cropper img) (emit (Ev_fromfile (source_path orig)) (emit (Ev_makedirs c) w)))"
        by (simp add: sc mk del: save.simps)
    }
    {
      fix img crops w4
      assume rd: "fst (read E orig w) = Inr img" and cf: "cf img = Inr crops"
        and wc: "write_crops E c cnm image_ext 0 crops
               (emit (Ev_cropper img) (emit (Ev_fromfile (source_path orig)) (emit (Ev_makedirs c) w))) =
               (Inr (), w4)"
      have sv: "save E (CropImageSource orig i cf cnm) save_dir image_ext (Some c) w =
          rename E (path_join c (cnm @ image_ext)) (path_join save_dir (cnm @ image_ext)) w4"
        by (subst sc) (simp add: mk rd cf wc)
      {
        assume "files w4 (path_join c (cnm @ image_ext)) = None"
        then show "save E (CropImageSource orig i cf cnm) save_dir image_ext (Some c) w =
                  (Inl FileNotFoundError,
                   emit (Ev_rename (path_join c (cnm @ image_ext)) (path_join save_dir (cnm @ image_ext))) w4)"
          by (simp only: sv rename_missing)
      }
      {
        assume "files w4 (path_join c (cnm @ image_ext)) \<noteq> None"
          and nc: "\<not> creatable E (path_join save_dir (cnm @ image_ext))"
        then obtain b where "files w4 (path_join c (cnm @ image_ext)) = Some b" by blast
        from rename_uncreatable [OF this nc]
        show "save E (CropImageSource orig i cf cnm) save_dir image_ext (Some c) w =
                    (Inl OSError,
                     emit (Ev_rename (path_join c (cnm @ image_ext)) (path_join save_dir (cnm @ image_ext))) w4)"
          by (simp only: sv)
      }
    }
    fix img crops j e
    assume rd: "fst (read E orig w) = Inr img" and cf: "cf img = Inr crops" and j: "j < length crops"
      and nr: "\<forall>k<j. \<forall>e'. imwrite_enc E (crop_path c (drop_last_segment cnm) image_ext k) (crops ! k) \<noteq> Inl e'"
      and ra: "imwrite_enc E (crop_path c (drop_last_segment cnm) image_ext j) (crops ! j) = Inl e"
    let ?w3 = "emit (Ev_cropper img) (emit (Ev_fromfile (source_path orig)) (emit (Ev_makedirs c) w))"
    let ?r = "write_crops E c cnm image_ext 0 crops ?w3"
    have nr0: "\<forall>k<j. \<forall>e'. imwrite_enc E (crop_path c (drop_last_segment cnm) image_ext (0 + k)) (crops ! k) \<noteq> Inl e'"
      using nr by simp
    have ra0: "imwrite_enc E (crop_path c (drop_last_segment cnm) image_ext (0 + j)) (crops ! j) = Inl e"
      using ra by simp
    note wr = write_crops_raise [OF j nr0 ra0, of ?w3]
    have r: "?r = (Inl e, snd ?r)" using wr by (simp add: prod_eq_iff)
    have sv: "save E (CropImageSource orig i cf cnm) save_dir image_ext (Some c) w = (Inl e, snd ?r)"
      by (subst sc) (simp add: mk rd cf, subst r, simp)
    show "fst (save E (CropImageSource orig i cf cnm) save_dir image_ext (Some c) w) = Inl e"
      by (simp add: sv del: save.simps)
    show "trace (snd (save E (CropImageSource orig i cf cnm) save_dir image_ext (Some c) w)) =
                 trace w @ [Ev_makedirs c, Ev_fromfile (source_path orig), Ev_cropper img] @
                   map (\<lambda>(k, crop). Ev_imwrite (crop_path c (drop_last_segment cnm) image_ext k) crop)
                     (take (Suc j) (enumerate 0 crops))"
      using wr by (simp add: sv del: save.simps)
  qed
  have c3: "\<forall>b. files w (path_join c (cnm @ image_ext)) = Some b \<longrightarrow> makedirs_err E c = None \<longrightarrow>
        \<not> creatable E (path_join save_dir (cnm @ image_ext)) \<longrightarrow>
        save E (CropImageSource orig i cf cnm) save_dir image_ext (Some c) w =
          (Inl OSError, emit (Ev_rename (path_join c (cnm @ image_ext)) (path_join save_dir (cnm @ image_ext)))
                          (emit (Ev_makedirs c) w))"
    by (simp add: save_warm rename_def Let_def del: save.simps)
  note n1 = n [THEN conjunct1] and n2 = n [THEN conjunct2, THEN conjunct1]
    and n3 = n [THEN conjunct2, THEN conjunct2]
  show ?thesis
    by (intro conjI) (fact p1 p2 p3 p3b p4 r1 r2 r3 rc n1 n2 n3 c1 c2 c3)+
qed

theorem C8_errors_surface_witness:
  "save scenario_env (PathImageSource ''in/cat.jpg'' [] ''cat'') ''/out'' ''.jpg'' None scenario_world =
     (Inr (), \<lparr>files = [''in/cat.jpg'' \<mapsto> 7, ''/out/cat.jpg'' \<mapsto> 107],
               trace = [Ev_fromfile ''in/cat.jpg'', Ev_tofile ''/out/cat.jpg'' 107]\<rparr>)
   \<and> save (scenario_env\<lparr>creatable := (\<lambda>p. False)\<rparr>) (PathImageSource ''in/cat.jpg'' [] ''cat'')
        ''/out'' ''.jpg'' None scenario_world =
     (Inl OSError, \<lparr>files = [''in/cat.jpg'' \<mapsto> 7],
                    trace = [Ev_fromfile ''in/cat.jpg'', Ev_tofile ''/out/cat.jpg'' 107]\<rparr>)
   \<and> save (scenario_env\<lparr>write_fault := (\<lambda>p b. Some 0)\<rparr>) (PathImageSource ''in/cat.jpg'' [] ''cat'')
        ''/out'' ''.jpg'' None scenario_world =
     (Inl OSError, \<lparr>files = [''in/cat.jpg'' \<mapsto> 7, ''/out/cat.jpg'' \<mapsto> 0],
                    trace = [Ev_fromfile ''in/cat.jpg'', Ev_tofile ''/out/cat.jpg'' 107]\<rparr>)
   \<and> save scenario_env (PathImageSource ''in/dog.jpg'' [] ''dog'') ''/out'' ''.jpg'' None scenario_world =
     (Inl FileNotFoundError, \<lparr>files = [''in/cat.jpg'' \<mapsto> 7], trace = [Ev_fromfile ''in/dog.jpg'']\<rparr>)"
proof -
  let ?ro = "scenario_env\<lparr>creatable := (\<lambda>p. False)\<rparr>"
  let ?full = "scenario_env\<lparr>write_fault := (\<lambda>p b. Some 0)\<rparr>"
  have t: "path_join ''/out'' (''cat'' @ ''.jpg'') = ''/out/cat.jpg''"
    by (simp add: path_join_def)
  have rd: "fst (read scenario_env (PathImageSource ''in/cat.jpg'' [] ''cat'') scenario_world) = Inr 7"
    by (simp add: scenario_env_def scenario_world_def fromfile_def)
  have rd': "fst (read ?ro (PathImageSource ''in/cat.jpg'' [] ''cat'') scenario_world) = Inr 7"
    by (simp add: scenario_env_def scenario_world_def fromfile_def)
  have rd'': "fst (read scenario_env (PathImageSource ''in/dog.jpg'' [] ''dog'') scenario_world) =
      Inl FileNotFoundError"
    by (simp add: scenario_env_def scenario_world_def fromfile_def)
  have rd''': "fst (read ?full (PathImageSource ''in/cat.jpg'' [] ''cat'') scenario_world) = Inr 7"
    by (simp add: scenario_env_def scenario_world_def fromfile_def)
  have en: "imencode scenario_env (snd (splitext (basename (path_join ''/out'' (''cat'' @ ''.jpg''))))) 7 =
      Inr (True, 107)"
    by (simp add: scenario_env_def)
  have en': "imencode ?ro (snd (splitext (basename (path_join ''/out'' (''cat'' @ ''.jpg''))))) 7 =
      Inr (True, 107)"
    by (simp add: scenario_env_def)
  have en''': "imencode ?full (snd (splitext (basename (path_join ''/out'' (''cat'' @ ''.jpg''))))) 7 =
      Inr (True, 107)"
    by (simp add: scenario_env_def)
  have cr: "creatable scenario_env (path_join ''/out'' (''cat'' @ ''.jpg''))"
    by (simp add: scenario_env_def)
  have cr': "\<not> creatable ?ro (path_join ''/out'' (''cat'' @ ''.jpg''))"
    by simp
  have cr''': "creatable ?full (path_join ''/out'' (''cat'' @ ''.jpg''))"
    by (simp add: scenario_env_def)
  have wf: "write_fault scenario_env (path_join ''/out'' (''cat'' @ ''.jpg'')) 107 = None"
    by (simp add: scenario_env_def)
  have wf''': "write_fault ?full (path_join ''/out'' (''cat'' @ ''.jpg'')) 107 = Some 0"
    by simp
  note a = C8_errors_surface [where E = scenario_env and p = "''in/cat.jpg''" and fns = "[]" and nm = "''cat''"
      and w = scenario_world and save_dir = "''/out''" and image_ext = "''.jpg''" and cache_dir = None,
      THEN conjunct2, THEN conjunct2, THEN conjunct2, THEN conjunct2, THEN conjunct1, rule_format,
      OF rd en cr wf]
  note b = C8_errors_surface [where E = ?ro and p = "''in/cat.jpg''" and fns = "[]" and nm = "''cat''"
      and w = scenario_world and save_dir = "''/out''" and image_ext = "''.jpg''" and cache_dir = None,
      THEN conjunct2, THEN conjunct2, THEN conjunct1, rule_format, OF rd' en' cr']
  note c = C8_errors_surface [where E = scenario_env and p = "''in/dog.jpg''" and fns = "[]" and nm = "''dog''"
      and w = scenario_world and save_dir = "''/out''" and image_ext = "''.jpg''" and cache_dir = None,
      THEN conjunct1, rule_format, OF rd'']
  note d = C8_errors_surface [where E = ?full and p = "''in/cat.jpg''" and fns = "[]" and nm = "''cat''"
      and w = scenario_world and save_dir = "''/out''" and image_ext = "''.jpg''" and cache_dir = None,
      THEN conjunct2, THEN conjunct2, THEN conjunct2, THEN conjunct1, rule_format,
      OF rd''' en''' cr''' wf''']
  have a': "save scenario_env (PathImageSource ''in/cat.jpg'' [] ''cat'') ''/out'' ''.jpg'' None scenario_world =
     (Inr (), \<lparr>files = [''in/cat.jpg'' \<mapsto> 7, ''/out/cat.jpg'' \<mapsto> 107],
               trace = [Ev_fromfile ''in/cat.jpg'', Ev_tofile ''/out/cat.jpg'' 107]\<rparr>)"
    by (simp only: a t) (simp add: scenario_world_def emit_def)
  have b': "save ?ro (PathImageSource ''in/cat.jpg'' [] ''cat'') ''/out'' ''.jpg'' None scenario_world =
     (Inl OSError, \<lparr>files = [''in/cat.jpg'' \<mapsto> 7],
                    trace = [Ev_fromfile ''in/cat.jpg'', Ev_tofile ''/out/cat.jpg'' 107]\<rparr>)"
    by (simp only: b t) (simp add: scenario_world_def emit_def)
  have c': "save scenario_env (PathImageSource ''in/dog.jpg'' [] ''dog'') ''/out'' ''.jpg'' None scenario_world =
     (Inl FileNotFoundError, \<lparr>files = [''in/cat.jpg'' \<mapsto> 7], trace = [Ev_fromfile ''in/dog.jpg'']\<rparr>)"
    by (simp only: c) (simp add: scenario_world_def emit_def)
  have d': "save ?full (PathImageSource ''in/cat.jpg'' [] ''cat'') ''/out'' ''.jpg'' None scenario_world =
     (Inl OSError, \<lparr>files = [''in/cat.jpg'' \<mapsto> 7, ''/out/cat.jpg'' \<mapsto> 0],
                    trace = [Ev_fromfile ''in/cat.jpg'', Ev_tofile ''/out/cat.jpg'' 107]\<rparr>)"
    by (simp only: d t) (simp add: scenario_world_def emit_def)
  from a' b' d' c' show ?thesis by blast
qed

end
